theory Spec2Isabelle
  imports Main "HOL-Library.Word"
begin

unbundle bit_operations_syntax


section \<open>The BPF back end of the translator: data model\<close>

text \<open>
  The definitions follow \<^verbatim>\<open>bpf-internal.h\<close>, \<^verbatim>\<open>bpf-shared-globals.h\<close> and
  \<^verbatim>\<open>bpf-translate.cxx\<close>.  C++ exceptions and failed assertions are values of
  the type \<open>failure\<close>; a function that can throw returns \<open>failure + 'a\<close>.
\<close>

subsection \<open>Failures\<close>

text \<open>A token stands for the source location a diagnostic is tagged with.\<close>

type_synonym token = nat

datatype failure =
    SEMANTIC_ERROR string token   \<comment> \<open>\<^verbatim>\<open>throw SEMANTIC_ERROR (msg, tok)\<close>\<close>
  | Assertion_failed string       \<comment> \<open>\<^verbatim>\<open>assert (cond)\<close> with \<open>cond\<close> false\<close>
  | Out_of_bounds string          \<comment> \<open>index outside a vector: undefined in the source\<close>
  | Null_pointer string           \<comment> \<open>dereference of a null pointer: undefined in the source\<close>

definition bind :: "failure + 'a \<Rightarrow> ('a \<Rightarrow> failure + 'b) \<Rightarrow> failure + 'b" where
  "bind m f = (case m of Inl e \<Rightarrow> Inl e | Inr x \<Rightarrow> f x)"

subsection \<open>Targets and constants (\<^verbatim>\<open>bpf-internal.h\<close>)\<close>

datatype bpf_target =
    target_kernel_bpf        \<comment> \<open>in-kernel JIT interpreter, restricted\<close>
  | target_user_bpfinterp    \<comment> \<open>userspace interpreter, relaxed\<close>

definition MAX_BPF_KERNEL_STACK :: "32 word" where
  "MAX_BPF_KERNEL_STACK = 512"

definition MAX_BPF_USER_STACK :: "32 word" where
  "MAX_BPF_USER_STACK = 65536"

definition MAX_BPF_STACK :: "bpf_target \<Rightarrow> 32 word" where
  "MAX_BPF_STACK target =
     (if target = target_kernel_bpf then MAX_BPF_KERNEL_STACK else MAX_BPF_USER_STACK)"

definition BPF_MAXSTRINGLEN :: nat where
  "BPF_MAXSTRINGLEN = 64"

definition BPF_MAXMAPENTRIES :: nat where
  "BPF_MAXMAPENTRIES = 2048"

subsection \<open>The temporary stack space of a program\<close>

text \<open>
  \<^verbatim>\<open>unsigned max_tmp_space\<close> is a 32-bit unsigned integer; \<open><\<close> and \<open>\<le>\<close> on
  words are the unsigned comparisons of the source.  Only the two fields that
  \<^verbatim>\<open>use_tmp_space\<close> reads are part of this record.
\<close>

record stack_budget =
  target :: bpf_target
  max_tmp_space :: "32 word"

definition use_tmp_space :: "32 word \<Rightarrow> 'a stack_budget_scheme \<Rightarrow> failure + 'a stack_budget_scheme" where
  "use_tmp_space bytes p =
     (let p1 = (if max_tmp_space p < bytes then p\<lparr>max_tmp_space := bytes\<rparr> else p)
      in if max_tmp_space p1 \<le> MAX_BPF_STACK (target p1) then Inr p1
         else Inl (Assertion_failed ''max_tmp_space <= MAX_BPF_STACK(target)''))"

subsection \<open>Statistics maps and foreach descriptors (\<^verbatim>\<open>bpf-shared-globals.h\<close>)\<close>

type_synonym stat_field = string
type_synonym map_idx = int
type_synonym stats_map = "stat_field \<rightharpoonup> map_idx"
type_synonym interned_stats_map = "map_idx list"

definition stat_fields :: "stat_field list" where
  "stat_fields = [''count'', ''sum'']"

definition stat_iter_field :: stat_field where
  "stat_iter_field = ''count''"

text \<open>The loop of \<^verbatim>\<open>intern_stats_map\<close> over a list of fields, with the asserted lookup.\<close>

fun intern_fields :: "stat_field list \<Rightarrow> stats_map \<Rightarrow> interned_stats_map \<Rightarrow> failure + interned_stats_map" where
  "intern_fields [] sm ism = Inr ism"
| "intern_fields (sf # sfs) sm ism =
     (case sm sf of
        None \<Rightarrow> Inl (Assertion_failed ''it != sm.end()'')
      | Some map_id \<Rightarrow> intern_fields sfs sm (ism @ [map_id]))"

definition intern_stats_map :: "stats_map \<Rightarrow> failure + interned_stats_map" where
  "intern_stats_map sm = intern_fields stat_fields sm []"

text \<open>
  The loop of \<^verbatim>\<open>deintern_stats_map\<close> runs over the indices below
  \<^verbatim>\<open>min(ism.size(), stat_fields.size())\<close>, which are the positions of \<open>zip\<close>.
\<close>

definition deintern_fields :: "stat_field list \<Rightarrow> interned_stats_map \<Rightarrow> stats_map" where
  "deintern_fields sfs ism = foldl (\<lambda>sm (sf, map_id). sm(sf \<mapsto> map_id)) Map.empty (zip sfs ism)"

definition deintern_stats_map :: "interned_stats_map \<Rightarrow> stats_map" where
  "deintern_stats_map ism = deintern_fields stat_fields ism"

text \<open>
  \<^verbatim>\<open>struct foreach_info\<close> on an LP64 host: \<^verbatim>\<open>int\<close> and \<^verbatim>\<open>unsigned\<close> are 32 bits,
  \<^verbatim>\<open>size_t\<close> and \<^verbatim>\<open>uint64_t\<close> are 64 bits.  A signed field is a word read with
  \<open>sint\<close>.
\<close>

record foreach_info =
  sort_direction :: "32 word"     \<comment> \<open>\<^verbatim>\<open>int\<close>: -1 decreasing, 0 none, 1 increasing\<close>
  sort_column :: "32 word"        \<comment> \<open>\<^verbatim>\<open>unsigned\<close>: 0 value, 1..N index\<close>
  keysize :: "64 word"            \<comment> \<open>\<^verbatim>\<open>size_t\<close>\<close>
  sort_column_size :: "64 word"   \<comment> \<open>\<^verbatim>\<open>size_t\<close>\<close>
  sort_column_ofs :: "32 word"    \<comment> \<open>\<^verbatim>\<open>int\<close>: -1 when the key is a scalar\<close>

type_synonym interned_foreach_info = "64 word list"

definition n_foreach_info_fields :: nat where
  "n_foreach_info_fields = 5"

text \<open>
  \<^verbatim>\<open>(uint64_t)\<close> of an \<^verbatim>\<open>int\<close> sign-extends (\<open>scast\<close>), of an \<^verbatim>\<open>unsigned\<close>
  zero-extends (\<open>ucast\<close>).
\<close>

definition intern_foreach_info :: "foreach_info \<Rightarrow> interned_foreach_info" where
  "intern_foreach_info fi =
     [ scast (sort_direction fi),
       ucast (sort_column fi),
       keysize fi,
       sort_column_size fi,
       scast (sort_column_ofs fi) ]"

text \<open>\<^verbatim>\<open>(int)\<close> and \<^verbatim>\<open>(unsigned)\<close> of a \<^verbatim>\<open>uint64_t\<close> keep the low 32 bits.\<close>

definition deintern_foreach_info :: "interned_foreach_info \<Rightarrow> failure + foreach_info" where
  "deintern_foreach_info ifi =
     (if length ifi = n_foreach_info_fields then
        Inr \<lparr> sort_direction = ucast (ifi ! 0),
              sort_column = ucast (ifi ! 1),
              keysize = ifi ! 2,
              sort_column_size = ifi ! 3,
              sort_column_ofs = ucast (ifi ! 4) \<rparr>
      else Inl (Assertion_failed ''ifi.size() == globals::n_foreach_info_fields''))"

subsection \<open>Values (\<^verbatim>\<open>struct value\<close>)\<close>

datatype exp_type = pe_unknown | pe_long | pe_string | pe_stats

type_synonym regno = "16 word"

definition noreg :: regno where
  "noreg = - 1"

text \<open>\<^verbatim>\<open>MAX_BPF_REG\<close> comes from \<^verbatim>\<open>linux/bpf.h\<close>: the registers R0 to R10.\<close>

definition MAX_BPF_REG :: nat where
  "MAX_BPF_REG = 11"

datatype value_type = UNINIT | IMM | STR_VAL | HARDREG | TMPREG

record bpf_value =
  vtype :: value_type
  reg_val :: regno
  imm_val :: "64 word"
  str_val :: string
  format_str :: bool
  format_type :: exp_type

definition mk_value :: "value_type \<Rightarrow> regno \<Rightarrow> 64 word \<Rightarrow> string \<Rightarrow> bool \<Rightarrow> bpf_value" where
  "mk_value t r c s f =
     \<lparr> vtype = t, reg_val = r, imm_val = c, str_val = s, format_str = f,
       format_type = pe_unknown \<rparr>"

definition mk_imm :: "64 word \<Rightarrow> bpf_value" where
  "mk_imm i = mk_value IMM noreg i [] False"

definition mk_str :: "string \<Rightarrow> bool \<Rightarrow> bpf_value" where
  "mk_str s f = mk_value STR_VAL noreg 0 s f"

definition mk_reg :: "regno \<Rightarrow> bpf_value" where
  "mk_reg r = mk_value TMPREG r 0 [] False"

definition mk_hardreg :: "regno \<Rightarrow> bpf_value" where
  "mk_hardreg r = mk_value HARDREG r 0 [] False"

definition is_reg :: "bpf_value \<Rightarrow> bool" where
  "is_reg v = (vtype v = HARDREG \<or> vtype v = TMPREG)"

definition is_imm :: "bpf_value \<Rightarrow> bool" where
  "is_imm v = (vtype v = IMM)"

definition is_str :: "bpf_value \<Rightarrow> bool" where
  "is_str v = (vtype v = STR_VAL)"

subsection \<open>Instructions, blocks and programs\<close>

text \<open>
  A \<^verbatim>\<open>value *\<close> is the index of a value object in the program's heap of
  values, a \<^verbatim>\<open>block *\<close> is the index of a block in \<^verbatim>\<open>program::blocks\<close>.
\<close>

type_synonym value_ptr = nat
type_synonym block_ptr = nat

datatype condition = EQ | NE | LT | LE | GT | GE | LTU | LEU | GTU | GEU | TEST

datatype bpf_size = BPF_B | BPF_H | BPF_W | BPF_DW

datatype bpf_op =
    BPF_ADD | BPF_SUB | BPF_MUL | BPF_DIV | BPF_OR | BPF_AND | BPF_LSH | BPF_RSH
  | BPF_NEG | BPF_MOD | BPF_XOR | BPF_ARSH

datatype bpf_func_id =
    BPF_FUNC_map_lookup_elem | BPF_FUNC_map_update_elem | BPF_FUNC_map_delete_elem
  | BPF_FUNC_perf_event_output | BPF_FUNC_map_get_next_key

text \<open>
  Modelled from the spec: the instruction-construction helpers of
  \<^verbatim>\<open>struct program\<close> (\<^verbatim>\<open>mk_ld\<close>, \<^verbatim>\<open>mk_st\<close>, \<^verbatim>\<open>mk_unary\<close>, \<^verbatim>\<open>mk_binary\<close>,
  \<^verbatim>\<open>mk_mov\<close>, \<^verbatim>\<open>mk_call\<close>, \<^verbatim>\<open>mk_exit\<close>, \<^verbatim>\<open>mk_jmp\<close>, \<^verbatim>\<open>mk_jcond\<close>, \<^verbatim>\<open>load_map\<close>) are
  declared in \<^verbatim>\<open>bpf-internal.h\<close> and defined in a file that is not among the
  sources.  An instruction is the record of the helper that constructed it
  with its operands; the encoding of the opcode is not modelled.
\<close>

datatype insn =
    Insn_ld bpf_size value_ptr value_ptr int        \<comment> \<open>size, dest, base, off\<close>
  | Insn_st bpf_size value_ptr int value_ptr        \<comment> \<open>size, base, off, src\<close>
  | Insn_unary bpf_op value_ptr value_ptr           \<comment> \<open>op, dest, src\<close>
  | Insn_binary bpf_op value_ptr value_ptr value_ptr  \<comment> \<open>op, dest, s0, s1\<close>
  | Insn_mov value_ptr value_ptr                    \<comment> \<open>dest, src\<close>
  | Insn_call bpf_func_id nat                       \<comment> \<open>helper, number of arguments\<close>
  | Insn_exit
  | Insn_jmp
  | Insn_jcond condition value_ptr value_ptr        \<comment> \<open>condition, s0, s1\<close>
  | Insn_ld_map value_ptr int                       \<comment> \<open>dest, map index\<close>

text \<open>
  A block is its instruction list and its two outgoing edges.  An edge object
  only records its two end points, so \<open>taken\<close> and \<open>fallthru\<close> hold the target
  of the edge; the set \<^verbatim>\<open>prevs\<close> of incoming edges of a block is the set of
  edges that point to it and is not stored.
\<close>

record block =
  insns :: "insn list"
  taken :: "block_ptr option"
  fallthru :: "block_ptr option"

definition empty_block :: block where
  "empty_block = \<lparr> insns = [], taken = None, fallthru = None \<rparr>"

record program = stack_budget +
  blocks :: "block list"
  heap :: "bpf_value list"                      \<comment> \<open>all value objects of the program\<close>
  reg_vals :: "value_ptr list"
  imm_map :: "64 word \<rightharpoonup> value_ptr"
  str_map :: "string \<rightharpoonup> value_ptr"
  format_map :: "string \<rightharpoonup> value_ptr"
  max_reg_space :: "32 word"

text \<open>
  Modelled from the spec: the constructor \<^verbatim>\<open>program::program\<close> and the members
  \<^verbatim>\<open>new_block\<close>, \<^verbatim>\<open>lookup_reg\<close>, \<^verbatim>\<open>new_reg\<close>, \<^verbatim>\<open>new_imm\<close> and \<^verbatim>\<open>new_str\<close> are
  declared in \<^verbatim>\<open>bpf-internal.h\<close> and defined in a file that is not among the
  sources.  The hard registers \<^verbatim>\<open>hardreg_vals\<close> are the first \<open>MAX_BPF_REG\<close>
  cells of the heap.  A new block is appended to the block list; a new
  register grows the register pool; an immediate or a string is looked up in
  its pool (\<^verbatim>\<open>imm_map\<close>, and \<^verbatim>\<open>str_map\<close> or \<^verbatim>\<open>format_map\<close> for a format string)
  and a value object is created only when the pool has none for that content.
\<close>

definition program_init :: "bpf_target \<Rightarrow> program" where
  "program_init t =
     \<lparr> target = t, max_tmp_space = 0, blocks = [],
       heap = map (\<lambda>r. mk_hardreg (of_nat r)) [0..<MAX_BPF_REG],
       reg_vals = [], imm_map = Map.empty, str_map = Map.empty, format_map = Map.empty,
       max_reg_space = 0 \<rparr>"

definition new_block :: "program \<Rightarrow> block_ptr \<times> program" where
  "new_block p = (length (blocks p), p\<lparr>blocks := blocks p @ [empty_block]\<rparr>)"

definition max_reg :: "program \<Rightarrow> regno" where
  "max_reg p = of_nat (length (reg_vals p) + MAX_BPF_REG)"

definition lookup_reg :: "nat \<Rightarrow> program \<Rightarrow> value_ptr" where
  "lookup_reg r p = (if r < MAX_BPF_REG then r else reg_vals p ! (r - MAX_BPF_REG))"

definition new_reg :: "program \<Rightarrow> value_ptr \<times> program" where
  "new_reg p =
     (let v = length (heap p)
      in (v, p\<lparr>heap := heap p @ [mk_reg (max_reg p)], reg_vals := reg_vals p @ [v]\<rparr>))"

definition new_imm :: "64 word \<Rightarrow> program \<Rightarrow> value_ptr \<times> program" where
  "new_imm i p =
     (case imm_map p i of
        Some old \<Rightarrow> (old, p)
      | None \<Rightarrow>
          (let v = length (heap p)
           in (v, p\<lparr>heap := heap p @ [mk_imm i], imm_map := (imm_map p)(i \<mapsto> v)\<rparr>)))"

definition str_pool :: "bool \<Rightarrow> program \<Rightarrow> string \<rightharpoonup> value_ptr" where
  "str_pool f p = (if f then format_map p else str_map p)"

definition new_str :: "string \<Rightarrow> bool \<Rightarrow> program \<Rightarrow> value_ptr \<times> program" where
  "new_str s f p =
     (case str_pool f p s of
        Some old \<Rightarrow> (old, p)
      | None \<Rightarrow>
          (let v = length (heap p)
           in (v, if f then p\<lparr>heap := heap p @ [mk_str s f], format_map := (format_map p)(s \<mapsto> v)\<rparr>
                  else p\<lparr>heap := heap p @ [mk_str s f], str_map := (str_map p)(s \<mapsto> v)\<rparr>)))"







subsection \<open>Global storage (\<^verbatim>\<open>struct globals\<close>) and the storage layout planner\<close>

text \<open>
  A \<^verbatim>\<open>vardecl\<close> object is identified by its address: the tables of
  \<^verbatim>\<open>struct globals\<close> are keyed by \<^verbatim>\<open>vardecl *\<close>.  The two internal variables are
  members of the \<^verbatim>\<open>globals\<close> object and have addresses of their own, and so
  have the declarations that the embedded assembler allocates for its
  temporaries.  The declaration of \<^verbatim>\<open>struct vardecl\<close> is not among the sources;
  the record holds the fields the translator reads.
\<close>

datatype vardecl_ptr = Internal_exit | Internal_errors | Decl nat | Asm_local nat

record vardecl =
  addr :: nat
  unmangled_name :: string
  tok :: token
  type :: exp_type
  arity :: int
  index_types :: "exp_type list"
  maxsize :: int

definition ptr :: "vardecl \<Rightarrow> vardecl_ptr" where
  "ptr v = Decl (addr v)"

datatype bpf_map_type =
    BPF_MAP_TYPE_HASH | BPF_MAP_TYPE_ARRAY | BPF_MAP_TYPE_PERF_EVENT_ARRAY
  | BPF_MAP_TYPE_PERCPU_HASH | BPF_MAP_TYPE_PERCPU_ARRAY

text \<open>The \<^verbatim>\<open>unsigned\<close> fields of a map definition are natural numbers.\<close>

record bpf_map_def =
  map_type :: bpf_map_type
  key_size :: nat
  value_size :: nat
  max_entries :: nat
  map_flags :: nat

record map_slot =
  map_id :: map_idx    \<comment> \<open>-1 indicates \<open>is_stat\<close>\<close>
  idx :: int           \<comment> \<open>-1 indicates \<open>\<not> is_scalar\<close>\<close>

definition is_scalar :: "map_slot \<Rightarrow> bool" where
  "is_scalar ms \<longleftrightarrow> idx ms \<ge> 0"

definition is_stat :: "map_slot \<Rightarrow> bool" where
  "is_stat ms \<longleftrightarrow> map_id ms < 0"

text \<open>
  \<^verbatim>\<open>aggregates\<close> is an association list without repeated keys, since the
  planner reads its size; the other tables are maps.
\<close>

record globals =
  maps :: "bpf_map_def list"
  globals :: "vardecl_ptr \<rightharpoonup> map_slot"
  scalar_stats :: stats_map
  array_stats :: "vardecl_ptr \<rightharpoonup> stats_map"
  aggregates :: "(vardecl_ptr \<times> int) list"
  foreach_loop_info :: "foreach_info list"
  interned_strings :: "string list"
  interned_str_map :: "string \<rightharpoonup> int"

definition globals_init :: globals where
  "globals_init =
     \<lparr> maps = [], globals = Map.empty, scalar_stats = Map.empty, array_stats = Map.empty,
       aggregates = [], foreach_loop_info = [], interned_strings = [],
       interned_str_map = Map.empty \<rparr>"

definition internal_map_idx :: map_idx where
  "internal_map_idx = 0"

definition perf_event_map_idx :: map_idx where
  "perf_event_map_idx = 1"

text \<open>\<^verbatim>\<open>enum internal_global_idx\<close>\<close>

definition EXIT :: int where "EXIT = 0"
definition ERRORS :: int where "ERRORS = 1"
definition NUM_INTERNALS :: nat where "NUM_INTERNALS = 2"
definition NUM_CPUS_PLACEHOLDER :: nat where "NUM_CPUS_PLACEHOLDER = 0"

text \<open>\<^verbatim>\<open>std::unordered_map::insert\<close> leaves an existing entry as it is.\<close>

definition map_insert :: "'k \<Rightarrow> 'v \<Rightarrow> ('k \<rightharpoonup> 'v) \<Rightarrow> ('k \<rightharpoonup> 'v)" where
  "map_insert k v m = (if k \<in> dom m then m else m(k \<mapsto> v))"

text \<open>\<^verbatim>\<open>m[k] = v\<close> on the association list: overwrite the entry or append one.\<close>

fun assign :: "'k \<Rightarrow> 'v \<Rightarrow> ('k \<times> 'v) list \<Rightarrow> ('k \<times> 'v) list" where
  "assign k v [] = [(k, v)]"
| "assign k v ((k', v') # kvs) = (if k' = k then (k, v) # kvs else (k', v') # assign k v kvs)"

definition build_internal_globals :: "globals \<Rightarrow> globals" where
  "build_internal_globals glob =
     glob\<lparr> globals :=
             map_insert Internal_errors \<lparr> map_id = 0, idx = ERRORS \<rparr>
               (map_insert Internal_exit \<lparr> map_id = 0, idx = EXIT \<rparr> (globals glob)),
           maps := maps glob @
             [ \<lparr> map_type = BPF_MAP_TYPE_HASH, key_size = 4, value_size = 8,
                 max_entries = NUM_INTERNALS, map_flags = 0 \<rparr>,
               \<lparr> map_type = BPF_MAP_TYPE_PERF_EVENT_ARRAY, key_size = 4, value_size = 4,
                 max_entries = NUM_CPUS_PLACEHOLDER, map_flags = 0 \<rparr> ] \<rparr>"

text \<open>
  \<^verbatim>\<open>glob.maps[map_id].max_entries++\<close>: the value before the increment and the
  updated tables.  An index outside the vector is undefined behaviour in the
  source and a failure here.
\<close>

definition bump_max_entries :: "int \<Rightarrow> globals \<Rightarrow> failure + (int \<times> globals)" where
  "bump_max_entries i glob =
     (if 0 \<le> i \<and> nat i < length (maps glob) then
        (let m = maps glob ! nat i
         in Inr (int (max_entries m),
                 glob\<lparr>maps := (maps glob)[nat i := m\<lparr>max_entries := max_entries m + 1\<rparr>]\<rparr>))
      else Inl (Out_of_bounds ''glob.maps''))"

text \<open>\<^verbatim>\<open>glob.maps.push_back(m)\<close> after \<^verbatim>\<open>map_id = glob.maps.size()\<close>.\<close>

definition push_map :: "bpf_map_def \<Rightarrow> globals \<Rightarrow> int \<times> globals" where
  "push_map m glob = (int (length (maps glob)), glob\<lparr>maps := maps glob @ [m]\<rparr>)"

text \<open>The first loop of the \<^verbatim>\<open>pe_stats\<close> scalar case: one map per statistics field.\<close>

fun new_scalar_stats :: "stat_field list \<Rightarrow> globals \<Rightarrow> globals" where
  "new_scalar_stats [] glob = glob"
| "new_scalar_stats (f # fs) glob =
     (let (map_id, glob1) =
            push_map \<lparr> map_type = BPF_MAP_TYPE_PERCPU_ARRAY, key_size = 4, value_size = 8,
                       max_entries = 0, map_flags = 0 \<rparr> glob
      in new_scalar_stats fs (glob1\<lparr>scalar_stats := (scalar_stats glob1)(f \<mapsto> map_id)\<rparr>))"

text \<open>
  The second loop: add one element to each field's array.  \<^verbatim>\<open>scalar_stats[f]\<close>
  on a missing field would insert the identifier 0.
\<close>

fun add_scalar_stat :: "stat_field list \<Rightarrow> int \<Rightarrow> globals \<Rightarrow> failure + (int \<times> globals)" where
  "add_scalar_stat [] this_idx glob = Inr (this_idx, glob)"
| "add_scalar_stat (f # fs) this_idx glob =
     (let (map_id, glob1) =
            (case scalar_stats glob f of
               Some i \<Rightarrow> (i, glob)
             | None \<Rightarrow> (0, glob\<lparr>scalar_stats := (scalar_stats glob)(f \<mapsto> 0)\<rparr>))
      in bind (bump_max_entries map_id glob1) (\<lambda>(check_idx, glob2).
           if this_idx = - 1 then add_scalar_stat fs check_idx glob2
           else if check_idx = this_idx then add_scalar_stat fs this_idx glob2
           else Inl (Assertion_failed ''check_idx == this_idx'')))"

text \<open>
  The \<^verbatim>\<open>do { --element; ... } while (element);\<close> loop over the index types of an
  array, from \<open>element\<close> down to 0; \<open>element\<close> is the value before the
  decrement.
\<close>

fun index_key_size :: "vardecl \<Rightarrow> nat \<Rightarrow> nat \<Rightarrow> failure + nat" where
  "index_key_size v 0 ksize = Inr ksize"
| "index_key_size v (Suc element) ksize =
     (if element < length (index_types v) then
        (case index_types v ! element of
           pe_long \<Rightarrow> index_key_size v element (ksize + 8)
         | pe_string \<Rightarrow> index_key_size v element (ksize + BPF_MAXSTRINGLEN)
         | _ \<Rightarrow> Inl (SEMANTIC_ERROR ''unhandled index type'' (tok v)))
      else Inl (Out_of_bounds ''v->index_types''))"

text \<open>The loop of the \<^verbatim>\<open>pe_stats\<close> array case: one map per statistics field.\<close>

fun new_array_stats :: "stat_field list \<Rightarrow> vardecl \<Rightarrow> nat \<Rightarrow> nat \<Rightarrow> globals \<Rightarrow> globals" where
  "new_array_stats [] v ks me glob = glob"
| "new_array_stats (f # fs) v ks me glob =
     (let (map_id, glob1) =
            push_map \<lparr> map_type = BPF_MAP_TYPE_PERCPU_HASH, key_size = ks, value_size = 8,
                       max_entries = me, map_flags = 0 \<rparr> glob;
          sm = (case array_stats glob1 (ptr v) of None \<Rightarrow> Map.empty | Some sm \<Rightarrow> sm);
          glob2 = glob1\<lparr>array_stats := (array_stats glob1)(ptr v \<mapsto> sm(f \<mapsto> map_id))\<rparr>;
          glob3 = glob2\<lparr>aggregates :=
                          assign (ptr v) (1 + int (length (aggregates glob2))) (aggregates glob2)\<rparr>
      in new_array_stats fs v ks me glob3)"

text \<open>
  One iteration of the loop of \<^verbatim>\<open>translate_globals\<close>.  The state is the pair of
  local variables \<^verbatim>\<open>long_map\<close> and \<^verbatim>\<open>str_map\<close> (here \<open>string_map\<close>, since
  \<open>str_map\<close> is a field of the program) with the tables.  The first part
  computes \<^verbatim>\<open>this_map\<close> and \<^verbatim>\<open>this_idx\<close>.
\<close>

type_synonym planner = "int \<times> int \<times> globals"

definition plan_scalar :: "vardecl \<Rightarrow> planner \<Rightarrow> failure + (planner \<times> int \<times> int)" where
  "plan_scalar v st =
     (case st of (long_map, string_map, glob) \<Rightarrow>
        (case type v of
           pe_long \<Rightarrow>
             (let (long_map1, glob1) =
                    (if long_map < 0 then
                       push_map \<lparr> map_type = BPF_MAP_TYPE_ARRAY, key_size = 4, value_size = 8,
                                  max_entries = 0, map_flags = 0 \<rparr> glob
                     else (long_map, glob))
              in bind (bump_max_entries long_map1 glob1) (\<lambda>(this_idx, glob2).
                   Inr ((long_map1, string_map, glob2), long_map1, this_idx)))
         | pe_string \<Rightarrow>
             (let (string_map1, glob1) =
                    (if string_map < 0 then
                       push_map \<lparr> map_type = BPF_MAP_TYPE_ARRAY, key_size = 4,
                                  value_size = BPF_MAXSTRINGLEN, max_entries = 0,
                                  map_flags = 0 \<rparr> glob
                     else (string_map, glob))
              in bind (bump_max_entries string_map1 glob1) (\<lambda>(this_idx, glob2).
                   Inr ((long_map, string_map1, glob2), string_map1, this_idx)))
         | pe_stats \<Rightarrow>
             (let glob1 = (if dom (scalar_stats glob) = {} then new_scalar_stats stat_fields glob
                           else glob)
              in bind (add_scalar_stat stat_fields (- 1) glob1) (\<lambda>(this_idx, glob2).
                   if this_idx \<ge> 0 then Inr ((long_map, string_map, glob2), - 1, this_idx)
                   else Inl (Assertion_failed ''this_idx >= 0'')))
         | _ \<Rightarrow> Inl (SEMANTIC_ERROR ''unhandled scalar type'' (tok v))))"

definition plan_array :: "vardecl \<Rightarrow> planner \<Rightarrow> failure + (planner \<times> int \<times> int)" where
  "plan_array v st =
     (case st of (long_map, string_map, glob) \<Rightarrow>
        bind (index_key_size v (nat (arity v mod 2 ^ 32)) 0) (\<lambda>ks.
          let me = (if maxsize v > 0 then nat (maxsize v) else BPF_MAXMAPENTRIES)
          in if type v = pe_stats then
               Inr ((long_map, string_map,
                     new_array_stats stat_fields v ks me
                       (glob\<lparr>array_stats := (array_stats glob)(ptr v \<mapsto> Map.empty)\<rparr>)),
                    - 1, - 1)
             else
               (case type v of
                  pe_long \<Rightarrow>
                    (let (this_map, glob1) =
                           push_map \<lparr> map_type = BPF_MAP_TYPE_HASH, key_size = ks,
                                      value_size = 8, max_entries = me, map_flags = 0 \<rparr> glob
                     in Inr ((long_map, string_map, glob1), this_map, - 1))
                | pe_string \<Rightarrow>
                    (let (this_map, glob1) =
                           push_map \<lparr> map_type = BPF_MAP_TYPE_HASH, key_size = ks,
                                      value_size = BPF_MAXSTRINGLEN, max_entries = me,
                                      map_flags = 0 \<rparr> glob
                     in Inr ((long_map, string_map, glob1), this_map, - 1))
                | _ \<Rightarrow> Inl (SEMANTIC_ERROR ''unhandled array element type'' (tok v)))))"

definition translate_global :: "vardecl \<Rightarrow> planner \<Rightarrow> failure + planner" where
  "translate_global v st =
     bind (if arity v = 0 then plan_scalar v st else plan_array v st)
       (\<lambda>((long_map, string_map, glob), this_map, this_idx).
          if this_map = internal_map_idx then
            Inl (Assertion_failed ''this_map != globals::internal_map_idx'')
          else if ptr v \<in> dom (globals glob) then Inl (Assertion_failed ''ok.second'')
          else Inr (long_map, string_map,
                    glob\<lparr>globals := (globals glob)(ptr v \<mapsto> \<lparr> map_id = this_map, idx = this_idx \<rparr>)\<rparr>))"

fun translate_globals_loop :: "vardecl list \<Rightarrow> planner \<Rightarrow> failure + planner" where
  "translate_globals_loop [] st = Inr st"
| "translate_globals_loop (v # vs) st = bind (translate_global v st) (translate_globals_loop vs)"

text \<open>\<^verbatim>\<open>translate_globals (glob, s)\<close>, where \<open>s_globals\<close> is the vector \<^verbatim>\<open>s.globals\<close>.\<close>

definition translate_globals :: "globals \<Rightarrow> vardecl list \<Rightarrow> failure + globals" where
  "translate_globals glob s_globals =
     bind (translate_globals_loop s_globals (- 1, - 1, build_internal_globals glob))
       (\<lambda>(long_map, string_map, glob'). Inr glob')"

text \<open>
  Notions used to state the properties of the planner: the declared
  attributes of a variable, two tables with the same layout, and the keys of
  the aggregates.
\<close>

definition decl_attrs :: "vardecl \<Rightarrow> exp_type \<times> int \<times> exp_type list \<times> int" where
  "decl_attrs v = (type v, arity v, index_types v, maxsize v)"

definition same_layout :: "globals \<Rightarrow> globals \<Rightarrow> bool" where
  "same_layout g g' \<longleftrightarrow>
     maps g = maps g' \<and> scalar_stats g = scalar_stats g'
     \<and> length (aggregates g) = length (aggregates g')"

definition agg_keys :: "globals \<Rightarrow> vardecl_ptr set" where
  "agg_keys g = fst ` set (aggregates g)"

definition keys_ok :: "globals \<Rightarrow> bool" where
  "keys_ok g \<longleftrightarrow> agg_keys g \<subseteq> dom (globals g)"

text \<open>
  Every slot refers to an existing map, and the shared maps of the scalars
  have been given to some variable.
\<close>

definition seen :: "planner \<Rightarrow> bool" where
  "seen st \<longleftrightarrow>
     (case st of (lm, sm, g) \<Rightarrow>
        (\<forall>k s. globals g k = Some s \<longrightarrow> map_id s < int (length (maps g))) \<and>
        (0 \<le> lm \<longrightarrow> (\<exists>k s. globals g k = Some s \<and> map_id s = lm)) \<and>
        (0 \<le> sm \<longrightarrow> (\<exists>k s. globals g k = Some s \<and> map_id s = sm)))"

section \<open>The translator (\<^verbatim>\<open>struct bpf_unparser\<close>)\<close>

subsection \<open>The state of the translator\<close>

text \<open>
  The translator emits code into the program \<^verbatim>\<open>this_prog\<close> at the insertion
  point \<^verbatim>\<open>this_ins\<close>, which appends to the end of a block or is cleared.  The
  table \<^verbatim>\<open>this_locals\<close> maps the address of a variable declaration to the
  register of the variable; an entry also carries the \<^verbatim>\<open>unmangled_name\<close> of
  the declaration, which the embedded assembler searches for, and the list
  order stands for the iteration order of the table.  \<^verbatim>\<open>func_calls\<close> holds the
  addresses of the functions that are being inlined.  \<^verbatim>\<open>error_status\<close> is not
  initialised by the constructor, so it is a plain pointer here.
\<close>

type_synonym locals_map = "(vardecl_ptr \<times> string \<times> value_ptr) list"

record bpf_unparser =
  this_prog :: program
  glob :: globals
  this_in_arg0 :: "value_ptr option"
  this_ins :: "block_ptr option"
  loop_break :: "block_ptr list"
  loop_cont :: "block_ptr list"
  func_return :: "block_ptr list"
  func_return_val :: "value_ptr list"
  func_calls :: "nat list"
  error_status :: value_ptr
  catch_jump :: "block_ptr list"
  catch_msg :: "value_ptr list"
  constraints :: "string \<rightharpoonup> int"
  this_locals :: locals_map
  ret0_block :: "block_ptr option"
  exit_block :: "block_ptr option"

text \<open>
  A member function of the translator takes the state and returns its result
  with the state it leaves, or the failure that it throws with the state at
  the throw: the objects that the translator has changed stay changed when an
  exception unwinds.
\<close>

type_synonym 'a tr = "bpf_unparser \<Rightarrow> (failure \<times> bpf_unparser) + ('a \<times> bpf_unparser)"

definition returnM :: "'a \<Rightarrow> 'a tr" where
  "returnM a = (\<lambda>s. Inr (a, s))"

definition throwM :: "failure \<Rightarrow> 'a tr" where
  "throwM e = (\<lambda>s. Inl (e, s))"

definition bindM :: "'a tr \<Rightarrow> ('a \<Rightarrow> 'b tr) \<Rightarrow> 'b tr" where
  "bindM m f = (\<lambda>s. case m s of Inl e \<Rightarrow> Inl e | Inr (a, s') \<Rightarrow> f a s')"

definition thenM :: "'a tr \<Rightarrow> 'b tr \<Rightarrow> 'b tr" where
  "thenM m n = bindM m (\<lambda>_. n)"

definition getsM :: "(bpf_unparser \<Rightarrow> 'a) \<Rightarrow> 'a tr" where
  "getsM g = (\<lambda>s. Inr (g s, s))"

definition modifyM :: "(bpf_unparser \<Rightarrow> bpf_unparser) \<Rightarrow> unit tr" where
  "modifyM g = (\<lambda>s. Inr ((), g s))"

definition whenM :: "bool \<Rightarrow> unit tr \<Rightarrow> unit tr" where
  "whenM c m = (if c then m else returnM ())"

text \<open>A sequence of statements.\<close>

definition doM :: "unit tr list \<Rightarrow> unit tr" where
  "doM ms = foldr thenM ms (returnM ())"

definition assertM :: "bool \<Rightarrow> string \<Rightarrow> unit tr" where
  "assertM c msg = (if c then returnM () else throwM (Assertion_failed msg))"

text \<open>\<^verbatim>\<open>for (i = \<dots>; i < \<dots>; ++i)\<close> over the values of the counter.\<close>

primrec forM :: "'i list \<Rightarrow> ('i \<Rightarrow> unit tr) \<Rightarrow> unit tr" where
  "forM [] f = returnM ()"
| "forM (i # rest) f = thenM (f i) (forM rest f)"

text \<open>\<^verbatim>\<open>v[i]\<close> on a vector; an index outside the vector is undefined in the source.\<close>

definition at :: "'a list \<Rightarrow> nat \<Rightarrow> string \<Rightarrow> 'a tr" where
  "at xs i what = (if i < length xs then returnM (xs ! i) else throwM (Out_of_bounds what))"

text \<open>\<^verbatim>\<open>v.back()\<close> on a vector; on an empty vector it is undefined in the source.\<close>

definition vector_back :: "'a list \<Rightarrow> string \<Rightarrow> 'a tr" where
  "vector_back xs what = (if xs = [] then throwM (Out_of_bounds what) else returnM (last xs))"

subsection \<open>Operations of the program through the translator\<close>

text \<open>A member of \<^verbatim>\<open>this_prog\<close> that returns a result and changes the program.\<close>

definition prog :: "(program \<Rightarrow> 'a \<times> program) \<Rightarrow> 'a tr" where
  "prog f = (\<lambda>s. case f (this_prog s) of (a, p) \<Rightarrow> Inr (a, s\<lparr>this_prog := p\<rparr>))"

text \<open>The registers of \<^verbatim>\<open>linux/bpf.h\<close>.\<close>

definition BPF_REG_0 :: nat where "BPF_REG_0 = 0"
definition BPF_REG_1 :: nat where "BPF_REG_1 = 1"
definition BPF_REG_2 :: nat where "BPF_REG_2 = 2"
definition BPF_REG_3 :: nat where "BPF_REG_3 = 3"
definition BPF_REG_4 :: nat where "BPF_REG_4 = 4"
definition BPF_REG_5 :: nat where "BPF_REG_5 = 5"
definition BPF_REG_10 :: nat where "BPF_REG_10 = 10"

definition BPF_F_CURRENT_CPU :: "64 word" where
  "BPF_F_CURRENT_CPU = 0xffffffff"

definition this_prog_lookup_reg :: "nat \<Rightarrow> value_ptr tr" where
  "this_prog_lookup_reg r = getsM (\<lambda>s. lookup_reg r (this_prog s))"

definition this_prog_use_tmp_space :: "32 word \<Rightarrow> unit tr" where
  "this_prog_use_tmp_space bytes =
     (\<lambda>s. case use_tmp_space bytes (this_prog s) of
             Inl e \<Rightarrow> Inl (e, s)
           | Inr p \<Rightarrow> Inr ((), s\<lparr>this_prog := p\<rparr>))"

definition set_block :: "block_ptr \<Rightarrow> unit tr" where
  "set_block b = modifyM (\<lambda>s. s\<lparr>this_ins := Some b\<rparr>)"

definition clear_block :: "unit tr" where
  "clear_block = modifyM (\<lambda>s. s\<lparr>this_ins := None\<rparr>)"

definition in_block :: "bool tr" where
  "in_block = getsM (\<lambda>s. this_ins s \<noteq> None)"

text \<open>
  Modelled from the spec: \<^verbatim>\<open>insn_append_inserter::new_insn\<close> and the
  instruction helpers of \<^verbatim>\<open>struct program\<close> are defined in a file that is not
  among the sources.  A helper appends one instruction, the record of the
  call, at the end of the block of the insertion point, which is always
  \<^verbatim>\<open>this_ins\<close> in the code modelled here; without a block there is no list to
  append to.  \<^verbatim>\<open>mk_jcond\<close> also gives the block its two outgoing edges.
\<close>

definition update_block :: "block_ptr \<Rightarrow> (block \<Rightarrow> block) \<Rightarrow> program \<Rightarrow> program" where
  "update_block b f p = p\<lparr>blocks := (blocks p)[b := f (blocks p ! b)]\<rparr>"

definition this_block :: "block_ptr tr" where
  "this_block =
     (\<lambda>s. case this_ins s of
             None \<Rightarrow> Inl (Null_pointer ''this_ins.b'', s)
           | Some b \<Rightarrow>
               if b < length (blocks (this_prog s)) then Inr (b, s)
               else Inl (Null_pointer ''this_ins.b'', s))"

definition new_insn :: "insn \<Rightarrow> unit tr" where
  "new_insn i =
     bindM this_block (\<lambda>b.
       modifyM (\<lambda>s. s\<lparr>this_prog :=
         update_block b (\<lambda>blk. blk\<lparr>insns := insns blk @ [i]\<rparr>) (this_prog s)\<rparr>))"

definition mk_ld :: "bpf_size \<Rightarrow> value_ptr \<Rightarrow> value_ptr \<Rightarrow> int \<Rightarrow> unit tr" where
  "mk_ld sz dest base off = new_insn (Insn_ld sz dest base off)"

definition mk_st :: "bpf_size \<Rightarrow> value_ptr \<Rightarrow> int \<Rightarrow> value_ptr \<Rightarrow> unit tr" where
  "mk_st sz base off src = new_insn (Insn_st sz base off src)"

definition mk_unary :: "bpf_op \<Rightarrow> value_ptr \<Rightarrow> value_ptr \<Rightarrow> unit tr" where
  "mk_unary opc dest src = new_insn (Insn_unary opc dest src)"

definition mk_binary :: "bpf_op \<Rightarrow> value_ptr \<Rightarrow> value_ptr \<Rightarrow> value_ptr \<Rightarrow> unit tr" where
  "mk_binary opc dest s0 s1 = new_insn (Insn_binary opc dest s0 s1)"

definition mk_mov :: "value_ptr \<Rightarrow> value_ptr \<Rightarrow> unit tr" where
  "mk_mov dest src = new_insn (Insn_mov dest src)"

definition mk_call :: "bpf_func_id \<Rightarrow> nat \<Rightarrow> unit tr" where
  "mk_call fid nargs = new_insn (Insn_call fid nargs)"

definition mk_exit :: "unit tr" where
  "mk_exit = new_insn Insn_exit"

definition load_map :: "value_ptr \<Rightarrow> int \<Rightarrow> unit tr" where
  "load_map dest src = new_insn (Insn_ld_map dest src)"

definition mk_jcond ::
  "condition \<Rightarrow> value_ptr \<Rightarrow> value_ptr \<Rightarrow> block_ptr \<Rightarrow> block_ptr \<Rightarrow> unit tr" where
  "mk_jcond c s0 s1 t f =
     bindM this_block (\<lambda>b.
       modifyM (\<lambda>s. s\<lparr>this_prog :=
         update_block b
           (\<lambda>blk. blk\<lparr>insns := insns blk @ [Insn_jcond c s0 s1],
                       taken := Some t, fallthru := Some f\<rparr>) (this_prog s)\<rparr>))"

definition emit_mov :: "value_ptr \<Rightarrow> value_ptr \<Rightarrow> unit tr" where
  "emit_mov d s = mk_mov d s"

text \<open>\<^verbatim>\<open>emit_jmp\<close>: the destination becomes the fall-through edge of the block.\<close>

definition emit_jmp :: "block_ptr \<Rightarrow> unit tr" where
  "emit_jmp b =
     bindM in_block (\<lambda>inb.
     thenM (assertM inb ''in_block()'')
    (bindM this_block (\<lambda>this_blk.
     thenM (modifyM (\<lambda>s. s\<lparr>this_prog :=
              update_block this_blk (\<lambda>blk. blk\<lparr>fallthru := Some b\<rparr>) (this_prog s)\<rparr>))
       clear_block)))"

subsection \<open>String data\<close>

definition emit_literal_string :: "string \<Rightarrow> token \<Rightarrow> value_ptr tr" where
  "emit_literal_string str tk =
     (if length str + 1 > BPF_MAXSTRINGLEN then
        throwM (SEMANTIC_ERROR ''string literal too long'' tk)
      else prog (new_str str False))"

text \<open>
  The inner loop of \<^verbatim>\<open>emit_simple_literal_str\<close>: the 32-bit word number \<open>i\<close> of
  the literal, least significant byte first, with zero for the bytes past
  the end of the string.
\<close>

definition literal_word :: "string \<Rightarrow> nat \<Rightarrow> 32 word" where
  "literal_word src i =
     foldl (\<lambda>word j.
              if i * 4 + j < length src
              then word OR push_bit (j * 8) (of_nat (of_char (src ! (i * 4 + j))))
              else word)
       0 [0..<4]"

text \<open>
  \<^verbatim>\<open>emit_simple_literal_str\<close> is a function outside the class; it is called
  with \<^verbatim>\<open>this_prog\<close> and \<^verbatim>\<open>this_ins\<close> only.  Offsets are integers: the 32-bit
  arithmetic of the source does not overflow for the 16 words of a string.
\<close>

definition emit_simple_literal_str :: "value_ptr \<Rightarrow> int \<Rightarrow> string \<Rightarrow> bool \<Rightarrow> value_ptr tr" where
  "emit_simple_literal_str dest ofs src zero_pad =
     (let str_bytes = length src + 1;
          str_words = (str_bytes + 3) div 4
      in thenM (forM [0..<str_words] (\<lambda>i.
                  bindM (prog (new_imm (ucast (literal_word src i)))) (\<lambda>w.
                    mk_st BPF_W dest (int i * 4 + ofs) w)))
        (thenM (whenM zero_pad
                  (forM [str_words..<BPF_MAXSTRINGLEN div 4] (\<lambda>i.
                     bindM (prog (new_imm 0)) (\<lambda>z.
                       mk_st BPF_W dest (int i * 4 + ofs) z))))
        (bindM (prog new_reg) (\<lambda>out.
         bindM (prog (new_imm (of_int ofs))) (\<lambda>ofs_imm.
         thenM (mk_binary BPF_ADD out dest ofs_imm)
           (returnM out))))))"

text \<open>
  The body of the inner loop of \<^verbatim>\<open>emit_string_copy\<close> for the byte \<open>j\<close> of a
  word: is the byte zero?
\<close>

definition nul_test :: "value_ptr \<Rightarrow> value_ptr \<Rightarrow> value_ptr \<Rightarrow> value_ptr \<Rightarrow> nat \<Rightarrow> unit tr" where
  "nul_test word all_nz bN nZ j =
     (let shift = 8 * j
      in thenM (if shift \<noteq> 0 then
                  bindM (prog (new_imm (of_nat shift))) (\<lambda>sh. mk_binary BPF_RSH bN word sh)
                else emit_mov bN word)
        (bindM (prog (new_imm 0xff)) (\<lambda>m.
         thenM (mk_binary BPF_AND bN bN m)
        (thenM (mk_unary BPF_NEG nZ bN)
        (thenM (mk_binary BPF_OR nZ nZ bN)
           (if j = 0 then emit_mov all_nz nZ
            else mk_binary BPF_AND all_nz all_nz nZ))))))"

text \<open>
  The first loop of \<^verbatim>\<open>emit_string_copy\<close>, over the words that are left:
  the block \<open>block_A[i]\<close> copies the word \<open>i\<close> and looks for the end of the
  string.  The loop returns the vectors \<open>block_A\<close> and \<open>block_B\<close>.
\<close>

fun copy_words ::
  "value_ptr \<Rightarrow> int \<Rightarrow> value_ptr \<Rightarrow> bool \<Rightarrow> block_ptr \<Rightarrow> nat \<Rightarrow> nat list \<Rightarrow>
   block_ptr list \<times> block_ptr list \<Rightarrow> (block_ptr list \<times> block_ptr list) tr" where
  "copy_words dest ofs src zero_pad return_block str_words [] bs = returnM bs"
| "copy_words dest ofs src zero_pad return_block str_words (i # rest) bs =
     bindM (if i < str_words - 1 then
              bindM (prog new_block) (\<lambda>a.
                if zero_pad then
                  bindM (prog new_block) (\<lambda>b. returnM (fst bs @ [a], snd bs @ [b]))
                else returnM (fst bs @ [a], snd bs))
            else returnM bs) (\<lambda>bs1.
     bindM (if i < str_words - 1 then at (fst bs1) (i + 1) ''block_A''
            else returnM return_block) (\<lambda>next_block.
     bindM (at (fst bs1) i ''block_A'') (\<lambda>a_i.
     thenM (set_block a_i)
    (bindM (prog new_reg) (\<lambda>word.
     thenM (mk_ld BPF_W word src (int i * 4))
    (thenM (mk_st BPF_W dest (int i * 4 + ofs) word)
       (if i = str_words - 1 then
          thenM (emit_jmp next_block)
            (copy_words dest ofs src zero_pad return_block str_words rest bs1)
        else
          bindM (prog new_reg) (\<lambda>all_nz.
          bindM (prog new_reg) (\<lambda>bN.
          bindM (prog new_reg) (\<lambda>nZ.
          thenM (forM [0..<4] (nul_test word all_nz bN nZ))
         (bindM (prog (new_imm 0)) (\<lambda>i0.
          bindM (if zero_pad then at (snd bs1) (i + 1) ''block_B''
                 else returnM return_block) (\<lambda>t.
          thenM (mk_jcond EQ all_nz i0 t next_block)
            (copy_words dest ofs src zero_pad return_block str_words rest bs1))))))))))))))"

text \<open>The second loop, for \<open>zero_pad\<close>: the block \<open>block_B[i]\<close> stores a zero word.\<close>

definition pad_words ::
  "value_ptr \<Rightarrow> int \<Rightarrow> block_ptr \<Rightarrow> nat \<Rightarrow> block_ptr list \<Rightarrow> unit tr" where
  "pad_words dest ofs return_block str_words block_B =
     forM [0..<str_words] (\<lambda>i.
       bindM (at block_B i ''block_B'') (\<lambda>b_i.
       thenM (set_block b_i)
      (bindM (prog (new_imm 0)) (\<lambda>z.
       thenM (mk_st BPF_W dest (int i * 4 + ofs) z)
      (bindM (if i < str_words - 1 then at block_B (i + 1) ''block_B''
              else returnM return_block) (\<lambda>nxt.
         emit_jmp nxt))))))"

text \<open>
  \<^verbatim>\<open>emit_string_copy\<close>.  The source \<open>src\<close> is a pointer to a value object; the
  object is read from the heap of the program.
\<close>

definition emit_string_copy :: "value_ptr \<Rightarrow> int \<Rightarrow> value_ptr \<Rightarrow> bool \<Rightarrow> value_ptr tr" where
  "emit_string_copy dest ofs src zero_pad =
     bindM (getsM (\<lambda>s. heap (this_prog s))) (\<lambda>h.
     bindM (at h src ''src'') (\<lambda>src_val.
       if is_str src_val then
         emit_simple_literal_str dest ofs (str_val src_val) zero_pad
       else
         (let str_bytes = BPF_MAXSTRINGLEN;
              str_words = (str_bytes + 3) div 4
          in bindM (prog new_reg) (\<lambda>out.
             bindM (prog new_block) (\<lambda>return_block.
             bindM (prog new_block) (\<lambda>null_copy_block.
             bindM (prog new_block) (\<lambda>normal_block.
             bindM (prog (new_imm 0)) (\<lambda>i0.
             thenM (mk_jcond EQ src i0 null_copy_block normal_block)
            (thenM (whenM (\<not> zero_pad)
                      (thenM (set_block null_copy_block)
                      (bindM (emit_simple_literal_str dest ofs [] False) (\<lambda>empty_str.
                       thenM (emit_mov out empty_str)
                         (emit_jmp return_block)))))
            (thenM (set_block normal_block)
            (bindM this_block (\<lambda>a0.
             bindM (copy_words dest ofs src zero_pad return_block str_words [0..<str_words]
                      ([a0], if zero_pad then [null_copy_block] else [])) (\<lambda>bs.
             thenM (whenM zero_pad (pad_words dest ofs return_block str_words (snd bs)))
            (thenM (set_block return_block)
            (bindM (prog (new_imm (of_int ofs))) (\<lambda>ofs_imm.
             thenM (mk_binary BPF_ADD out dest ofs_imm)
               (returnM out)))))))))))))))))"

subsection \<open>Transport messages, the epilogue and the exit block\<close>

text \<open>\<^verbatim>\<open>enum perf_event_type\<close>\<close>

datatype perf_event_type =
    STP_EXIT | STP_ERROR | STP_STORE_ERROR_MSG | STP_PRINT_ERROR_MSG | STP_PRINTF_START
  | STP_PRINTF_END | STP_PRINTF_FORMAT | STP_PRINTF_ARG_LONG | STP_PRINTF_ARG_STR

fun perf_event_code :: "perf_event_type \<Rightarrow> 64 word" where
  "perf_event_code STP_EXIT = 0"
| "perf_event_code STP_ERROR = 1"
| "perf_event_code STP_STORE_ERROR_MSG = 2"
| "perf_event_code STP_PRINT_ERROR_MSG = 3"
| "perf_event_code STP_PRINTF_START = 4"
| "perf_event_code STP_PRINTF_END = 5"
| "perf_event_code STP_PRINTF_FORMAT = 6"
| "perf_event_code STP_PRINTF_ARG_LONG = 7"
| "perf_event_code STP_PRINTF_ARG_STR = 8"

text \<open>\<^verbatim>\<open>globals::intern_string\<close>\<close>

definition intern_string :: "string \<Rightarrow> globals \<Rightarrow> int \<times> globals" where
  "intern_string str g =
     (case interned_str_map g str of
        Some i \<Rightarrow> (i, g)
      | None \<Rightarrow>
          (let this_idx = int (length (interned_strings g))
           in (this_idx, g\<lparr>interned_strings := interned_strings g @ [str],
                           interned_str_map := (interned_str_map g)(str \<mapsto> this_idx)\<rparr>)))"

text \<open>
  The first part of \<^verbatim>\<open>emit_transport_msg\<close> settles the type of the argument
  from the argument, the parameter and the message.
\<close>

definition harmonize :: "perf_event_type \<Rightarrow> bpf_value \<Rightarrow> exp_type \<Rightarrow> exp_type tr" where
  "harmonize msg a ft0 =
     (let ft1 = (if ft0 = pe_unknown then format_type a else ft0)
      in thenM (assertM (ft1 = format_type a \<or> format_type a = pe_unknown)
                  ''format_type == arg->format_type || arg->format_type == pe_unknown'')
           (let ft2 = (if is_str a \<and> format_str a \<and> ft1 = pe_unknown then pe_string else ft1)
            in returnM
                 (if msg = STP_PRINTF_ARG_LONG \<and> ft2 = pe_unknown then pe_long
                  else if msg = STP_PRINTF_ARG_STR \<and> ft2 = pe_unknown then pe_string
                  else ft2)))"

text \<open>
  The remainder of the division of C++, which truncates towards zero.
\<close>

definition c_rem :: "int \<Rightarrow> int \<Rightarrow> int" where
  "c_rem a b = sgn a * (\<bar>a\<bar> mod \<bar>b\<bar>)"

text \<open>
  \<^verbatim>\<open>emit_transport_msg (msg, arg, format_type)\<close>.  The size \<open>arg_size\<close> is
  \<^verbatim>\<open>unsigned\<close>, a 32-bit word; the offsets are \<^verbatim>\<open>int\<close> and \<open>sint\<close> reads the
  32-bit word that a conversion to \<^verbatim>\<open>int\<close> leaves.
\<close>

definition emit_transport_msg ::
  "perf_event_type \<Rightarrow> value_ptr option \<Rightarrow> exp_type \<Rightarrow> unit tr" where
  "emit_transport_msg msg arg ft0 =
     bindM (getsM (\<lambda>s. heap (this_prog s))) (\<lambda>h.
     bindM (case arg of
              None \<Rightarrow> returnM (None, ft0)
            | Some a \<Rightarrow>
                bindM (at h a ''arg'') (\<lambda>av.
                bindM (harmonize msg av ft0) (\<lambda>ft. returnM (Some (a, av), ft)))) (\<lambda>(av, ft).
     bindM (case av of
              None \<Rightarrow> returnM (0 :: 32 word)
            | Some (a, v) \<Rightarrow>
                (case ft of
                   pe_long \<Rightarrow> returnM 8
                 | pe_string \<Rightarrow>
                     if is_str v \<and> format_str v then returnM 8
                     else bindM (getsM (\<lambda>s. max_tmp_space (this_prog s))) (\<lambda>m.
                            returnM (of_nat BPF_MAXSTRINGLEN + m))
                 | _ \<Rightarrow> throwM (Assertion_failed ''false''))) (\<lambda>arg_size0.
       (let arg_size = (if arg_size0 mod 8 \<noteq> 0 then arg_size0 + (8 - arg_size0 mod 8)
                        else arg_size0);
            arg_ofs = sint (- arg_size);
            msg_ofs0 = sint (- arg_size - 8);
            msg_ofs = (if c_rem msg_ofs0 8 \<noteq> 0
                       then msg_ofs0 - (8 - c_rem (- msg_ofs0) 8) else msg_ofs0)
        in thenM (this_prog_use_tmp_space (of_int (- msg_ofs)))
          (bindM (this_prog_lookup_reg BPF_REG_10) (\<lambda>frame.
           thenM (case av of
                    None \<Rightarrow> returnM ()
                  | Some (a, v) \<Rightarrow>
                      (case ft of
                         pe_long \<Rightarrow> mk_st BPF_DW frame arg_ofs a
                       | pe_string \<Rightarrow>
                           if is_str v \<and> format_str v then
                             bindM (\<lambda>s. case intern_string (str_val v) (glob s) of
                                          (i, g) \<Rightarrow> Inr (i, s\<lparr>glob := g\<rparr>)) (\<lambda>i.
                             bindM (prog (new_imm (of_int i))) (\<lambda>iv.
                               mk_st BPF_DW frame arg_ofs iv))
                           else
                             bindM (emit_string_copy frame arg_ofs a False) (\<lambda>_.
                               returnM ())
                       | _ \<Rightarrow> throwM (Assertion_failed ''false'')))
          (bindM (prog (new_imm (perf_event_code msg))) (\<lambda>mv.
           thenM (mk_st BPF_DW frame msg_ofs mv)
          (bindM (getsM this_in_arg0) (\<lambda>in_arg0.
           bindM (case in_arg0 of None \<Rightarrow> prog (new_imm 0) | Some c \<Rightarrow> returnM c) (\<lambda>ctx.
           bindM (this_prog_lookup_reg BPF_REG_1) (\<lambda>r1.
           thenM (emit_mov r1 ctx)
          (bindM (this_prog_lookup_reg BPF_REG_2) (\<lambda>r2.
           thenM (load_map r2 perf_event_map_idx)
          (bindM (this_prog_lookup_reg BPF_REG_3) (\<lambda>r3.
           bindM (prog (new_imm BPF_F_CURRENT_CPU)) (\<lambda>fl.
           thenM (emit_mov r3 fl)
          (bindM (this_prog_lookup_reg BPF_REG_4) (\<lambda>r4.
           bindM (prog (new_imm (of_int msg_ofs))) (\<lambda>mo.
           thenM (mk_binary BPF_ADD r4 frame mo)
          (bindM (this_prog_lookup_reg BPF_REG_5) (\<lambda>r5.
           bindM (prog (new_imm (of_int (- msg_ofs)))) (\<lambda>ms.
           thenM (emit_mov r5 ms)
             (mk_call BPF_FUNC_perf_event_output 5))))))))))))))))))))))))"

text \<open>
  The limit of soft errors: \<^verbatim>\<open>constraints["MAXERRORS"]\<close> when the option is
  set, and 0 otherwise.
\<close>

definition max_errors :: "int tr" where
  "max_errors =
     getsM (\<lambda>s. case constraints s ''MAXERRORS'' of Some l \<Rightarrow> l | None \<Rightarrow> 0)"

definition add_epilogue :: "unit tr" where
  "add_epilogue =
     bindM (prog (new_imm 0)) (\<lambda>i0.
     bindM (this_prog_lookup_reg BPF_REG_10) (\<lambda>frame.
     bindM max_errors (\<lambda>l.
     bindM (prog (new_imm (of_int l))) (\<lambda>limit.
     bindM (prog new_block) (\<lambda>error_block.
     bindM (prog new_block) (\<lambda>exit_blk.
     bindM (getsM error_status) (\<lambda>status.
     thenM (doM [mk_jcond EQ i0 status exit_blk error_block,
                 set_block error_block,
                 emit_transport_msg STP_PRINT_ERROR_MSG None pe_unknown])
    (bindM (prog (new_imm (of_int ERRORS))) (\<lambda>key.
     thenM (doM [mk_st BPF_W frame (- 4) key,
                 this_prog_use_tmp_space 4])
    (bindM (this_prog_lookup_reg BPF_REG_1) (\<lambda>r1.
     thenM (load_map r1 internal_map_idx)
    (bindM (this_prog_lookup_reg BPF_REG_2) (\<lambda>r2.
     bindM (prog (new_imm (- 4))) (\<lambda>m4.
     thenM (doM [mk_binary BPF_ADD r2 frame m4,
                 mk_call BPF_FUNC_map_lookup_elem 2])
    (bindM (prog new_block) (\<lambda>increment_block.
     bindM (this_prog_lookup_reg BPF_REG_0) (\<lambda>r0.
     thenM (doM [mk_jcond EQ r0 i0 exit_blk increment_block,
                 set_block increment_block])
    (bindM (prog new_reg) (\<lambda>error_count.
     thenM (mk_ld BPF_DW error_count r0 0)
    (bindM (prog (new_imm 1)) (\<lambda>i1.
     thenM (doM [mk_binary BPF_ADD error_count error_count i1,
                 mk_st BPF_DW frame (- 8) error_count,
                 this_prog_use_tmp_space 8])
    (bindM (prog (new_imm (of_int ERRORS))) (\<lambda>key2.
     thenM (doM [mk_st BPF_W frame (- 8 - 4) key2,
                 this_prog_use_tmp_space 4])
    (bindM (this_prog_lookup_reg BPF_REG_1) (\<lambda>r1'.
     thenM (load_map r1' internal_map_idx)
    (bindM (this_prog_lookup_reg BPF_REG_2) (\<lambda>r2'.
     bindM (prog (new_imm (- 8 - 4))) (\<lambda>m12.
     thenM (mk_binary BPF_ADD r2' frame m12)
    (bindM (this_prog_lookup_reg BPF_REG_3) (\<lambda>r3.
     bindM (prog (new_imm (- 8))) (\<lambda>m8.
     thenM (mk_binary BPF_ADD r3 frame m8)
    (bindM (this_prog_lookup_reg BPF_REG_4) (\<lambda>r4.
     bindM (prog (new_imm 0)) (\<lambda>z.
     thenM (doM [mk_mov r4 z,
                 mk_call BPF_FUNC_map_update_elem 4])
    (bindM (prog new_block) (\<lambda>exceeded_block.
       doM [mk_jcond LE error_count limit exit_blk exceeded_block,
            set_block exceeded_block,
            emit_transport_msg STP_ERROR None pe_unknown,
            emit_jmp exit_blk,
            set_block exit_blk]
     ))))))))))))))))))))))))))))))))))))"

text \<open>
  \<^verbatim>\<open>get_exit_block\<close>.  \<^verbatim>\<open>set_block (cont)\<close> reads the block \<open>cont\<close>, which is
  the block of the insertion point at the call.
\<close>

definition get_exit_block :: "block_ptr tr" where
  "get_exit_block =
     bindM (getsM exit_block) (\<lambda>eb.
       case eb of
         Some b \<Rightarrow> returnM b
       | None \<Rightarrow>
           bindM (getsM this_ins) (\<lambda>cont.
           bindM (prog new_block) (\<lambda>exit.
           thenM (set_block exit)
          (thenM add_epilogue
          (thenM mk_exit
          (thenM (case cont of
                    None \<Rightarrow> throwM (Null_pointer ''cont'')
                  | Some c \<Rightarrow> set_block c)
          (thenM (modifyM (\<lambda>s. s\<lparr>exit_block := Some exit\<rparr>))
             (returnM exit))))))))"

subsection \<open>Local variables\<close>

definition find_local :: "vardecl_ptr \<Rightarrow> locals_map \<Rightarrow> value_ptr option" where
  "find_local p m = map_option snd (map_of m p)"

text \<open>\<^verbatim>\<open>new_locals\<close>: a fresh register for every variable of the list.\<close>

fun new_locals_loop :: "vardecl list \<Rightarrow> locals_map \<Rightarrow> locals_map tr" where
  "new_locals_loop [] m = returnM m"
| "new_locals_loop (v # vs) m =
     bindM (prog new_reg) (\<lambda>r.
     thenM (assertM (ptr v \<notin> fst ` set m) ''ok.second'')
       (new_locals_loop vs (m @ [(ptr v, unmangled_name v, r)])))"

definition new_locals :: "vardecl list \<Rightarrow> locals_map tr" where
  "new_locals vars = new_locals_loop vars []"

subsection \<open>The embedded assembler\<close>

text \<open>
  The text of an embedded-code block is parsed into a vector of statements
  before any code is emitted.  The parser and \<^verbatim>\<open>translate_escapes\<close> are not
  modelled: an embedded-code block is the vector of its statements, and of
  these only the two kinds of the catch discipline and of the exit path,
  \<^verbatim>\<open>jump_to_catch\<close> and \<^verbatim>\<open>terminate\<close>.  They carry neither a label nor a
  jump target, so the first pass of \<^verbatim>\<open>visit_embeddedcode\<close>, which builds the
  table of the labelled blocks, creates no block for them.

  An operand is given by its shape: \<^verbatim>\<open>$$\<close>, \<^verbatim>\<open>$ctx\<close>, \<^verbatim>\<open>$name\<close>, a number with
  its value, a quoted string with its contents after the translation of the
  escapes, or \<^verbatim>\<open>-\<close>.  \<^verbatim>\<open>jump_to_catch\<close> resolves its operand with \<open>allow_imm\<close>
  and \<open>allow_emit\<close> at their defaults, so the branches of \<^verbatim>\<open>emit_asm_arg\<close> for
  register numbers are not reached by these shapes; an operand of no known
  shape is \<open>Arg_invalid\<close> with its text.
\<close>

datatype asm_arg =
    Arg_return_value
  | Arg_ctx
  | Arg_var string
  | Arg_numeric "64 word"
  | Arg_string string
  | Arg_MAXSTRINGLEN
  | Arg_CURRENT_CPU
  | Arg_null
  | Arg_invalid string

datatype asm_stmt =
    Jump_to_catch token asm_arg
  | Terminate token

text \<open>
  \<^verbatim>\<open>emit_asm_arg (stmt, arg)\<close>.  An unknown variable gets a temporary: a new
  declaration, whose address differs from the addresses of all other
  declarations, and a new register.
\<close>

definition find_local_by_name :: "string \<Rightarrow> locals_map \<Rightarrow> value_ptr option" where
  "find_local_by_name var m =
     (case filter (\<lambda>(p, n, r). n = var) m of [] \<Rightarrow> None | (p, n, r) # _ \<Rightarrow> Some r)"

definition new_vardecl :: "locals_map \<Rightarrow> vardecl_ptr" where
  "new_vardecl m = Asm_local (length m)"

definition emit_asm_arg :: "token \<Rightarrow> asm_arg \<Rightarrow> value_ptr tr" where
  "emit_asm_arg tk arg =
     (case arg of
        Arg_return_value \<Rightarrow>
          bindM (getsM func_return) (\<lambda>fr.
            if fr = [] then throwM (SEMANTIC_ERROR ''no return value outside function'' tk)
            else bindM (getsM func_return_val) (\<lambda>frv. vector_back frv ''func_return_val''))
      | Arg_ctx \<Rightarrow>
          bindM (getsM this_in_arg0) (\<lambda>in_arg0.
            case in_arg0 of Some c \<Rightarrow> returnM c | None \<Rightarrow> prog (new_imm 0))
      | Arg_var var \<Rightarrow>
          bindM (getsM this_locals) (\<lambda>m.
            case find_local_by_name var m of
              Some r \<Rightarrow> returnM r
            | None \<Rightarrow>
                bindM (prog new_reg) (\<lambda>reg.
                thenM (assertM (new_vardecl m \<notin> fst ` set m) ''ok.second'')
               (thenM (modifyM (\<lambda>s. s\<lparr>this_locals := m @ [(new_vardecl m, var, reg)]\<rparr>))
                  (returnM reg))))
      | Arg_numeric imm \<Rightarrow> prog (new_imm imm)
      | Arg_string str \<Rightarrow> emit_literal_string str tk
      | Arg_MAXSTRINGLEN \<Rightarrow> prog (new_imm (of_nat BPF_MAXSTRINGLEN))
      | Arg_CURRENT_CPU \<Rightarrow> prog (new_imm BPF_F_CURRENT_CPU)
      | Arg_null \<Rightarrow> prog (new_imm 0)
      | Arg_invalid txt \<Rightarrow>
          throwM (SEMANTIC_ERROR (''invalid bpf argument '' @ [CHR 0x27] @ txt @ [CHR 0x27]) tk))"

text \<open>The second loop of \<^verbatim>\<open>visit_embeddedcode\<close> for one statement.\<close>

definition emit_asm_stmt :: "asm_stmt \<Rightarrow> unit tr" where
  "emit_asm_stmt stmt =
     (case stmt of
        Jump_to_catch tk param \<Rightarrow>
          bindM (emit_asm_arg tk param) (\<lambda>msg.
          thenM (modifyM (\<lambda>s. s\<lparr>catch_msg := catch_msg s @ [msg]\<rparr>))
         (bindM (prog new_block) (\<lambda>error_block.
          bindM (getsM catch_jump) (\<lambda>cj.
          thenM (if cj \<noteq> [] then emit_jmp (last cj) else emit_jmp error_block)
            (set_block error_block)))))
      | Terminate tk \<Rightarrow>
          bindM (prog new_block) (\<lambda>join_block.
          bindM get_exit_block (\<lambda>exit_blk.
          thenM (emit_jmp exit_blk)
            (set_block join_block))))"

text \<open>
  \<^verbatim>\<open>visit_embeddedcode\<close>: \<open>userspace\<close> tells whether the block is tagged
  \<^verbatim>\<open>/* userspace */\<close>.  \<^verbatim>\<open>set_block (entry_block)\<close> reads the block of the
  insertion point.
\<close>

definition visit_embeddedcode :: "token \<Rightarrow> bool \<Rightarrow> asm_stmt list \<Rightarrow> unit tr" where
  "visit_embeddedcode tk userspace statements =
     bindM (getsM (\<lambda>s. target (this_prog s))) (\<lambda>tgt.
       if userspace \<and> tgt = target_kernel_bpf then
         throwM (SEMANTIC_ERROR
                   ''embeddedcode marked /* userspace */ in kernel bpf probe'' tk)
       else
         bindM (getsM this_ins) (\<lambda>entry_block.
         thenM (case entry_block of
                  None \<Rightarrow> throwM (Null_pointer ''entry_block'')
                | Some b \<Rightarrow> set_block b)
           (forM statements emit_asm_stmt)))"

subsection \<open>The input tree\<close>

text \<open>
  The classes of the tree are declared in a file that is not among the
  sources.  The datatypes hold the classes and the fields that the modelled
  visitors read; the other classes of statements and expressions are not
  part of the model.  A literal string holds its contents after the
  translation of the escapes.  A symbol holds the declaration it refers to;
  context variables are not part of the model.  A pointer that the
  translator tests for null is an option.

  A function declaration is identified by its address, the first field.  A
  call holds the candidates it refers to.  A recursive function refers to
  itself from its body: in the tree the inner reference is a declaration with
  the same address, and its body is not looked at, since the translator stops
  at the reference.

  The fields of a \<^verbatim>\<open>foreach\<close> loop are the token, the declarations of the
  index variables, the declaration of the array (or the token of a base that
  is not a symbol), the array slice, the sort direction, the sort column, the
  limit, the declaration of the value variable, and the body.  An
  embedded-code block holds its token, its \<^verbatim>\<open>/* userspace */\<close> tag and its
  statements.
\<close>

datatype expression =
    Literal_string token string
  | Literal_number token "64 word"
  | Binary_expression token string expression expression
  | Unary_expression token string expression
  | Logical_or_expr token expression expression
  | Logical_and_expr token expression expression
  | Comparison token string expression expression
  | Symbol token vardecl
  | Functioncall token "functiondecl list" "expression list"
and statement =
    Block "statement list"
  | Null_statement
  | Expr_statement expression
  | If_statement expression statement "statement option"
  | For_loop token "statement option" expression "statement option" statement
  | Foreach_loop token "vardecl list" "token + vardecl" "expression list"
      "32 word" "32 word" "expression option" "vardecl option" statement
  | Try_block statement statement "vardecl option"
  | Return_statement token "expression option"
  | Break_statement token
  | Continue_statement token
  | Next_statement token
  | Embeddedcode token bool "asm_stmt list"
and functiondecl =
    Functiondecl nat "vardecl list" "vardecl list" statement

subsection \<open>Visitors without a recursive call\<close>

definition visit_literal_string :: "token \<Rightarrow> string \<Rightarrow> value_ptr tr" where
  "visit_literal_string tk str = emit_literal_string str tk"

definition visit_literal_number :: "64 word \<Rightarrow> value_ptr tr" where
  "visit_literal_number v = prog (new_imm v)"

text \<open>The operators of \<^verbatim>\<open>visit_binary_expression\<close>.\<close>

definition binary_opcode :: "string \<Rightarrow> bpf_op option" where
  "binary_opcode opr =
     (if opr = ''+'' then Some BPF_ADD
      else if opr = ''-'' then Some BPF_SUB
      else if opr = ''*'' then Some BPF_MUL
      else if opr = ''&'' then Some BPF_AND
      else if opr = ''|'' then Some BPF_OR
      else if opr = ''^'' then Some BPF_XOR
      else if opr = ''<<'' then Some BPF_LSH
      else if opr = ''>>'' then Some BPF_ARSH
      else if opr = ''>>>'' then Some BPF_RSH
      else if opr = ''/'' then Some BPF_DIV
      else if opr = ''%'' then Some BPF_MOD
      else None)"

text \<open>The operators of a comparison in \<^verbatim>\<open>emit_cond\<close>.\<close>

definition comparison_cond :: "string \<Rightarrow> condition option" where
  "comparison_cond opr =
     (if opr = ''=='' then Some EQ
      else if opr = ''!='' then Some NE
      else if opr = ''<'' then Some LT
      else if opr = ''<='' then Some LE
      else if opr = ''>'' then Some GT
      else if opr = ''>='' then Some GE
      else None)"

definition visit_symbol :: "token \<Rightarrow> vardecl \<Rightarrow> value_ptr tr" where
  "visit_symbol tk v =
     thenM (assertM (arity v < 1) ''v->arity < 1'')
    (bindM (getsM (\<lambda>s. globals (glob s) (ptr v))) (\<lambda>g.
       case g of
         Some ms \<Rightarrow>
           if is_stat ms then
             throwM (SEMANTIC_ERROR ''unhandled statistics variable'' tk)
           else
             bindM (this_prog_lookup_reg BPF_REG_10) (\<lambda>frame.
             bindM (prog (new_imm (of_int (idx ms)))) (\<lambda>iv.
             thenM (mk_st BPF_W frame (- 4) iv)
            (thenM (this_prog_use_tmp_space 4)
            (bindM (this_prog_lookup_reg BPF_REG_1) (\<lambda>r1.
             thenM (load_map r1 (map_id ms))
            (bindM (this_prog_lookup_reg BPF_REG_2) (\<lambda>r2.
             bindM (prog (new_imm (- 4))) (\<lambda>m4.
             thenM (mk_binary BPF_ADD r2 frame m4)
            (thenM (mk_call BPF_FUNC_map_lookup_elem 2)
            (bindM (this_prog_lookup_reg BPF_REG_0) (\<lambda>r0.
             bindM (prog (new_imm 0)) (\<lambda>i0.
             bindM (prog new_block) (\<lambda>cont_block.
             bindM get_exit_block (\<lambda>exit_blk.
             thenM (mk_jcond EQ r0 i0 exit_blk cont_block)
            (thenM (set_block cont_block)
            (bindM (prog new_reg) (\<lambda>res.
               case type v of
                 pe_long \<Rightarrow> thenM (mk_ld BPF_DW res r0 0) (returnM res)
               | pe_string \<Rightarrow> thenM (emit_mov res r0) (returnM res)
               | _ \<Rightarrow> throwM (SEMANTIC_ERROR ''unhandled global variable type'' tk)
             )))))))))))))))))
       | None \<Rightarrow>
           bindM (getsM this_locals) (\<lambda>m.
             case find_local (ptr v) m of
               Some r \<Rightarrow> returnM r
             | None \<Rightarrow> throwM (SEMANTIC_ERROR ''unknown variable'' tk))))"

definition visit_break_statement :: "token \<Rightarrow> unit tr" where
  "visit_break_statement tk =
     bindM (getsM loop_break) (\<lambda>lb.
       if lb = [] then throwM (SEMANTIC_ERROR ''cannot 'break' outside loop'' tk)
       else emit_jmp (last lb))"

definition visit_continue_statement :: "token \<Rightarrow> unit tr" where
  "visit_continue_statement tk =
     bindM (getsM loop_cont) (\<lambda>lc.
       if lc = [] then throwM (SEMANTIC_ERROR ''cannot 'continue' outside loop'' tk)
       else emit_jmp (last lc))"

text \<open>
  \<^verbatim>\<open>visit_next_statement\<close> jumps to the member \<^verbatim>\<open>exit_block\<close>, which is null
  until \<^verbatim>\<open>get_exit_block\<close> has been called; an edge to no block is undefined
  in the source.
\<close>

definition visit_next_statement :: "token \<Rightarrow> unit tr" where
  "visit_next_statement tk =
     bindM (getsM func_return) (\<lambda>fr.
       if fr \<noteq> [] then
         throwM (SEMANTIC_ERROR ''bpf unhandled next statement in function'' tk)
       else
         bindM (getsM exit_block) (\<lambda>eb.
           case eb of
             None \<Rightarrow> throwM (Null_pointer ''exit_block'')
           | Some b \<Rightarrow> emit_jmp b))"

text \<open>
  The second part of \<^verbatim>\<open>visit_try_block\<close>, at the start of the catch block: the
  message that \<^verbatim>\<open>jump_to_catch\<close> has stored goes to the variable of the
  handler.
\<close>

definition catch_error_message :: "vardecl option \<Rightarrow> unit tr" where
  "catch_error_message catch_error_var =
     (case catch_error_var of
        None \<Rightarrow> returnM ()
      | Some catch_var_decl \<Rightarrow>
          bindM (getsM this_locals) (\<lambda>m.
            case find_local (ptr catch_var_decl) m of
              None \<Rightarrow> throwM (SEMANTIC_ERROR ''unknown value'' (tok catch_var_decl))
            | Some catch_var \<Rightarrow>
                bindM (getsM catch_msg) (\<lambda>cm.
                bindM (vector_back cm ''catch_msg'') (\<lambda>error_var.
                thenM (modifyM (\<lambda>s. s\<lparr>catch_msg := butlast (catch_msg s)\<rparr>))
                  (mk_mov catch_var error_var)))))"

text \<open>The loop of \<^verbatim>\<open>emit_functioncall\<close> that installs the arguments.\<close>

fun install_args :: "vardecl list \<Rightarrow> value_ptr list \<Rightarrow> locals_map \<Rightarrow> locals_map tr" where
  "install_args formals [] m = returnM m"
| "install_args [] (a # as) m = throwM (Out_of_bounds ''f->formal_args'')"
| "install_args (f # formals) (a # as) m =
     thenM (assertM (ptr f \<notin> fst ` set m) ''ok.second'')
       (install_args formals as (m @ [(ptr f, unmangled_name f, a)]))"

subsection \<open>The parts of \<^verbatim>\<open>visit_foreach_loop\<close> without a recursive call\<close>

text \<open>The local variables of \<^verbatim>\<open>visit_foreach_loop\<close>.\<close>

record foreach_vars =
  fe_keys :: "value_ptr list"
  fe_key_decls :: "vardecl list"
  fe_key_offsets :: "32 word list"
  fe_arraydecl :: vardecl
  fe_map_id :: int
  fe_is_stat_array :: bool
  fe_composite_key :: bool
  fe_limit :: value_ptr
  fe_keyref :: value_ptr
  fe_i0 :: value_ptr
  fe_id :: value_ptr
  fe_frame :: value_ptr
  fe_key_ofs :: value_ptr
  fe_newkey_ofs :: value_ptr
  fe_body_block :: block_ptr
  fe_load_block_1 :: block_ptr
  fe_iter_block :: block_ptr
  fe_join_block :: block_ptr

text \<open>The loop that populates \<open>key_decls\<close> and \<open>keys\<close>.\<close>

fun foreach_keys :: "vardecl list \<Rightarrow> value_ptr list tr" where
  "foreach_keys [] = returnM []"
| "foreach_keys (keydecl # indexes) =
     bindM (getsM this_locals) (\<lambda>m.
       case find_local (ptr keydecl) m of
         None \<Rightarrow> throwM (SEMANTIC_ERROR ''unknown index'' (tok keydecl))
       | Some r \<Rightarrow> bindM (foreach_keys indexes) (\<lambda>rs. returnM (r # rs)))"

text \<open>
  The loop that populates \<open>key_offsets\<close> and \<open>foreach_info\<close>, over the index
  types from the column \<open>k\<close> on.
\<close>

fun foreach_columns ::
  "token \<Rightarrow> exp_type list \<Rightarrow> nat \<Rightarrow> foreach_info \<times> 32 word list \<Rightarrow>
   (foreach_info \<times> 32 word list) tr" where
  "foreach_columns tk [] k st = returnM st"
| "foreach_columns tk (ty # tys) k st =
     bindM (case ty of
              pe_long \<Rightarrow> returnM (8 :: nat)
            | pe_string \<Rightarrow> returnM BPF_MAXSTRINGLEN
            | _ \<Rightarrow> throwM (SEMANTIC_ERROR ''unhandled foreach index type'' tk))
       (\<lambda>this_column_size.
          (let info = fst st;
               info1 = (if sort_column info = of_nat (k + 1)
                        then info\<lparr>sort_column_size := of_nat this_column_size,
                                  sort_column_ofs := ucast (keysize info)\<rparr>
                        else info)
           in foreach_columns tk tys (k + 1)
                (info1\<lparr>keysize := keysize info1 + of_nat this_column_size\<rparr>,
                 snd st @ [ucast (keysize info1)])))"

text \<open>
  The first part of \<^verbatim>\<open>visit_foreach_loop\<close> after the test of the target, up
  to the reservation of the stack space; \<open>has_limit\<close> tells whether the loop
  has a limit.
\<close>

definition foreach_begin ::
  "token \<Rightarrow> vardecl list \<Rightarrow> token + vardecl \<Rightarrow> expression list \<Rightarrow> 32 word \<Rightarrow> 32 word \<Rightarrow>
   bool \<Rightarrow> foreach_vars tr" where
  "foreach_begin tk indexes base array_slice sort_dir sort_col has_limit =
     (if array_slice \<noteq> [] then
        throwM (SEMANTIC_ERROR ''unsupported array slice in bpf foreach loop'' tk)
      else
        bindM (foreach_keys indexes) (\<lambda>keys.
        bindM (case base of
                 Inl base_tok \<Rightarrow> throwM (SEMANTIC_ERROR ''unknown type'' base_tok)
               | Inr a \<Rightarrow> returnM a) (\<lambda>arraydecl.
        bindM (foreach_columns tk (index_types arraydecl) 0
                 (\<lparr> sort_direction = sort_dir, sort_column = sort_col, keysize = 0,
                     sort_column_size = 0, sort_column_ofs = 0 \<rparr>, [])) (\<lambda>(info0, key_offsets).
          (let info = (if length (index_types arraydecl) = 1
                       then info0\<lparr>sort_column_ofs := - 1\<rparr> else info0)
           in bindM (getsM (\<lambda>s. length (foreach_loop_info (glob s)))) (\<lambda>foreach_id.
              thenM (modifyM (\<lambda>s. s\<lparr>glob :=
                       (glob s)\<lparr>foreach_loop_info := foreach_loop_info (glob s) @ [info]\<rparr>\<rparr>))
             (bindM (getsM (\<lambda>s. globals (glob s) (ptr arraydecl))) (\<lambda>g.
                case g of
                  None \<Rightarrow> throwM (SEMANTIC_ERROR ''unknown array'' (tok arraydecl))
                | Some ms \<Rightarrow>
                    thenM (assertM (\<not> is_scalar ms) ''!g->second.is_scalar()'')
                   (bindM (if is_stat ms then
                             bindM (getsM (\<lambda>s. array_stats (glob s) (ptr arraydecl)))
                               (\<lambda>all_fields.
                                  case all_fields of
                                    None \<Rightarrow>
                                      throwM (SEMANTIC_ERROR ''unknown stats array''
                                                (tok arraydecl))
                                  | Some sm \<Rightarrow>
                                      (case sm stat_iter_field of
                                         None \<Rightarrow>
                                           throwM (Assertion_failed
                                             ''one_field != all_fields->second.end()'')
                                       | Some one_field \<Rightarrow>
                                           if sort_column info = 0 then
                                             throwM (SEMANTIC_ERROR
                                               ''unsupported sorted iteration on stat aggregate''
                                               (tok arraydecl))
                                           else returnM one_field))
                           else returnM (map_id ms)) (\<lambda>the_map.
                    bindM (if has_limit then prog new_reg else prog (new_imm (- 1))) (\<lambda>limit.
                    bindM (if length indexes \<noteq> 1 then prog new_reg
                           else at keys 0 ''keys'') (\<lambda>keyref.
                    bindM (prog (new_imm 0)) (\<lambda>i0.
                    bindM (prog (new_imm (of_nat foreach_id))) (\<lambda>ident.
                    bindM (this_prog_lookup_reg BPF_REG_10) (\<lambda>frame.
                    bindM (prog new_block) (\<lambda>body_block.
                    bindM (prog new_block) (\<lambda>load_block_1.
                    bindM (prog new_block) (\<lambda>iter_block.
                    bindM (prog new_block) (\<lambda>join_block.
                    bindM (prog (new_imm (- 8))) (\<lambda>key_ofs.
                    bindM (prog (new_imm (- 8 - 8))) (\<lambda>newkey_ofs.
                    thenM (this_prog_use_tmp_space (2 * 8))
                      (returnM
                         \<lparr> fe_keys = keys, fe_key_decls = indexes,
                           fe_key_offsets = key_offsets, fe_arraydecl = arraydecl,
                           fe_map_id = the_map, fe_is_stat_array = is_stat ms,
                           fe_composite_key = (length indexes \<noteq> 1), fe_limit = limit,
                           fe_keyref = keyref, fe_i0 = i0, fe_id = ident, fe_frame = frame,
                           fe_key_ofs = key_ofs, fe_newkey_ofs = newkey_ofs,
                           fe_body_block = body_block, fe_load_block_1 = load_block_1,
                           fe_iter_block = iter_block, fe_join_block = join_block \<rparr>
                      ))))))))))))))))))))))"

text \<open>
  The call of the helper \<^verbatim>\<open>map_get_next_key\<close> with its test.  The source
  writes the sequence twice: for the first key, with a null key in the second
  register, and for the next key, with the address of the key.
\<close>

definition foreach_next_key_call :: "foreach_vars \<Rightarrow> value_ptr option \<Rightarrow> unit tr" where
  "foreach_next_key_call fv key =
     bindM (this_prog_lookup_reg BPF_REG_1) (\<lambda>r1.
     thenM (load_map r1 (fe_map_id fv))
    (bindM (this_prog_lookup_reg BPF_REG_2) (\<lambda>r2.
     thenM (case key of
              None \<Rightarrow> mk_mov r2 (fe_i0 fv)
            | Some k \<Rightarrow> mk_binary BPF_ADD r2 (fe_frame fv) k)
    (bindM (this_prog_lookup_reg BPF_REG_3) (\<lambda>r3.
     thenM (mk_binary BPF_ADD r3 (fe_frame fv) (fe_newkey_ofs fv))
    (bindM (this_prog_lookup_reg BPF_REG_4) (\<lambda>r4.
     thenM (mk_mov r4 (fe_id fv))
    (bindM (this_prog_lookup_reg BPF_REG_5) (\<lambda>r5.
     thenM (mk_mov r5 (fe_limit fv))
    (thenM (mk_call BPF_FUNC_map_get_next_key 5)
    (bindM (this_prog_lookup_reg BPF_REG_0) (\<lambda>r0.
       mk_jcond NE r0 (fe_i0 fv) (fe_join_block fv) (fe_load_block_1 fv)))))))))))))"

text \<open>Get the first key, and enter the loop body.\<close>

definition foreach_first_key :: "foreach_vars \<Rightarrow> unit tr" where
  "foreach_first_key fv =
     thenM (foreach_next_key_call fv None)
    (thenM (set_block (fe_body_block fv))
       (modifyM (\<lambda>s. s\<lparr>loop_break := loop_break s @ [fe_join_block fv],
                        loop_cont := loop_cont s @ [fe_iter_block fv]\<rparr>)))"

text \<open>The loop that unpacks a composite key into the index variables.\<close>

definition foreach_unpack :: "foreach_vars \<Rightarrow> unit tr" where
  "foreach_unpack fv =
     forM [0..<length (fe_key_decls fv)] (\<lambda>k.
       bindM (at (fe_key_decls fv) k ''key_decls'') (\<lambda>kd.
       bindM (at (fe_keys fv) k ''keys'') (\<lambda>key.
       bindM (at (fe_key_offsets fv) k ''key_offsets'') (\<lambda>ko.
         case type kd of
           pe_long \<Rightarrow> mk_ld BPF_DW key (fe_keyref fv) (sint ko)
         | pe_string \<Rightarrow>
             bindM (prog (new_imm (ucast ko))) (\<lambda>kv.
               mk_binary BPF_ADD key (fe_keyref fv) kv)
         | _ \<Rightarrow> throwM (SEMANTIC_ERROR ''unhandled foreach key type'' (tok kd))))))"

text \<open>The retrieval of the value, when the loop requests one.\<close>

definition foreach_value :: "foreach_vars \<Rightarrow> vardecl \<Rightarrow> unit tr" where
  "foreach_value fv valdecl =
     (if fe_is_stat_array fv then
        throwM (SEMANTIC_ERROR ''unsupported value iteration on stat aggregate''
                  (tok (fe_arraydecl fv)))
      else
        bindM (getsM this_locals) (\<lambda>m.
          case find_local (ptr valdecl) m of
            None \<Rightarrow> throwM (SEMANTIC_ERROR ''unknown value'' (tok valdecl))
          | Some val \<Rightarrow>
              bindM (prog new_block) (\<lambda>load_block_2.
              bindM (this_prog_lookup_reg BPF_REG_1) (\<lambda>r1.
              thenM (load_map r1 (fe_map_id fv))
             (bindM (this_prog_lookup_reg BPF_REG_2) (\<lambda>r2.
              bindM (if fe_composite_key fv then returnM False
                     else bindM (at (fe_key_decls fv) 0 ''key_decls'') (\<lambda>kd.
                            returnM (type kd = pe_long))) (\<lambda>long_key.
              thenM (if long_key then mk_binary BPF_ADD r2 (fe_frame fv) (fe_newkey_ofs fv)
                     else mk_mov r2 (fe_keyref fv))
             (thenM (mk_call BPF_FUNC_map_lookup_elem 2)
             (bindM (this_prog_lookup_reg BPF_REG_0) (\<lambda>r0.
              thenM (mk_jcond EQ r0 (fe_i0 fv) (fe_join_block fv) load_block_2)
             (thenM (set_block load_block_2)
                (case type valdecl of
                   pe_long \<Rightarrow> mk_ld BPF_DW val r0 0
                 | pe_string \<Rightarrow> mk_mov val r0
                 | _ \<Rightarrow> throwM (SEMANTIC_ERROR ''unhandled foreach value type''
                                   (tok valdecl))))))))))))))"

text \<open>
  The part of \<^verbatim>\<open>visit_foreach_loop\<close> after the loop body: get the next key,
  load it, retrieve the value, count down the limit and go back to the body.
\<close>

definition foreach_next_key :: "foreach_vars \<Rightarrow> vardecl option \<Rightarrow> bool \<Rightarrow> unit tr" where
  "foreach_next_key fv val has_limit =
     thenM (modifyM (\<lambda>s. s\<lparr>loop_cont := butlast (loop_cont s),
                             loop_break := butlast (loop_break s)\<rparr>))
    (bindM in_block (\<lambda>inb.
     thenM (whenM inb (emit_jmp (fe_iter_block fv)))
    (thenM (set_block (fe_iter_block fv))
    (thenM (mk_st BPF_DW (fe_frame fv) (- 8) (fe_keyref fv))
    (thenM (foreach_next_key_call fv (Some (fe_key_ofs fv)))
    (thenM (set_block (fe_load_block_1 fv))
    (thenM (mk_ld BPF_DW (fe_keyref fv) (fe_frame fv) (- 8 - 8))
    (thenM (whenM (fe_composite_key fv) (foreach_unpack fv))
    (thenM (case val of None \<Rightarrow> returnM () | Some valdecl \<Rightarrow> foreach_value fv valdecl)
    (thenM (whenM has_limit
              (bindM (prog (new_imm (- 1))) (\<lambda>m1.
                 mk_binary BPF_ADD (fe_limit fv) (fe_limit fv) m1)))
    (thenM (emit_jmp (fe_body_block fv))
       (set_block (fe_join_block fv)))))))))))))"

subsection \<open>The recursive visitors\<close>

text \<open>
  \<^verbatim>\<open>emit_expr\<close> and \<^verbatim>\<open>emit_stmt\<close> dispatch on the class of the node to the
  \<^verbatim>\<open>visit_\<close> member of the class; the equations of \<open>emit_expr\<close> and \<open>emit_stmt\<close>
  are these members.  \<open>emit_args\<close> is the loop of \<^verbatim>\<open>visit_functioncall\<close> that
  evaluates the arguments, and \<open>emit_stmts\<close> the loop of \<^verbatim>\<open>visit_block\<close>.
\<close>

fun boolean_shape :: "expression \<Rightarrow> bool" where
  "boolean_shape (Logical_or_expr tk l r) = True"
| "boolean_shape (Logical_and_expr tk l r) = True"
| "boolean_shape (Comparison tk opr l r) = True"
| "boolean_shape (Unary_expression tk opr x) = (opr = ''!'')"
| "boolean_shape _ = False"

function
  emit_expr :: "expression \<Rightarrow> value_ptr tr" and
  emit_bool :: "expression \<Rightarrow> value_ptr tr" and
  emit_cond :: "expression \<Rightarrow> block_ptr \<Rightarrow> block_ptr \<Rightarrow> unit tr" and
  emit_args :: "expression list \<Rightarrow> value_ptr list tr" and
  emit_functioncall :: "functiondecl \<Rightarrow> value_ptr list \<Rightarrow> value_ptr tr" and
  emit_stmt :: "statement option \<Rightarrow> unit tr" and
  emit_stmts :: "statement list \<Rightarrow> unit tr"
where
  "emit_expr (Literal_string tk str) = visit_literal_string tk str"
| "emit_expr (Literal_number tk v) = visit_literal_number v"
| "emit_expr (Binary_expression tk opr l r) =
     (case binary_opcode opr of
        None \<Rightarrow> throwM (SEMANTIC_ERROR ''unhandled binary operator'' tk)
      | Some code \<Rightarrow>
          bindM (prog new_reg) (\<lambda>s0.
          bindM (emit_expr l) (\<lambda>lv.
          thenM (mk_mov s0 lv)
         (bindM (emit_expr r) (\<lambda>s1.
          bindM (prog new_reg) (\<lambda>d.
          thenM (mk_binary code d s0 s1)
            (returnM d)))))))"
| "emit_expr (Unary_expression tk opr x) =
     (if opr = ''-'' then
        bindM (emit_expr x) (\<lambda>s.
        bindM (prog new_reg) (\<lambda>d.
        thenM (mk_unary BPF_NEG d s)
          (returnM d)))
      else if opr = ''~'' then
        bindM (prog (new_imm (- 1))) (\<lambda>s1.
        bindM (emit_expr x) (\<lambda>s0.
        bindM (prog new_reg) (\<lambda>d.
        thenM (mk_binary BPF_XOR d s0 s1)
          (returnM d))))
      else if opr = ''!'' then emit_bool (Unary_expression tk opr x)
      else if opr = ''+'' then emit_expr x
      else throwM (SEMANTIC_ERROR ''unhandled unary operator'' tk))"
| "emit_expr (Logical_or_expr tk l r) = emit_bool (Logical_or_expr tk l r)"
| "emit_expr (Logical_and_expr tk l r) = emit_bool (Logical_and_expr tk l r)"
| "emit_expr (Comparison tk opr l r) = emit_bool (Comparison tk opr l r)"
| "emit_expr (Symbol tk v) = visit_symbol tk v"
| "emit_expr (Functioncall tk [] args) =
     throwM (SEMANTIC_ERROR ''unhandled function overloading'' tk)"
| "emit_expr (Functioncall tk (f # g # fs) args) =
     throwM (SEMANTIC_ERROR ''unhandled function overloading'' tk)"
| "emit_expr (Functioncall tk [Functiondecl a formals locs body] args) =
     bindM (getsM func_calls) (\<lambda>fc.
       if a \<in> set fc then throwM (SEMANTIC_ERROR ''unhandled function recursion'' tk)
       else
         thenM (assertM (length args = length formals)
                  ''e->args.size () == f->formal_args.size ()'')
        (bindM (emit_args args) (\<lambda>vals.
           emit_functioncall (Functiondecl a formals locs body) vals)))"
| "emit_args [] = returnM []"
| "emit_args (e # es) =
     bindM (prog new_reg) (\<lambda>r.
     bindM (emit_expr e) (\<lambda>v.
     thenM (emit_mov r v)
    (bindM (emit_args es) (\<lambda>rs.
       returnM (r # rs)))))"
| "emit_functioncall (Functiondecl a formals locs body) args =
     bindM (new_locals locs) (\<lambda>locals0.
     bindM (install_args formals args locals0) (\<lambda>locals.
     bindM (getsM this_locals) (\<lambda>old_locals.
     thenM (modifyM (\<lambda>s. s\<lparr>this_locals := locals\<rparr>))
    (bindM (prog new_block) (\<lambda>join_block.
     bindM (prog new_reg) (\<lambda>retval.
     thenM (modifyM (\<lambda>s. s\<lparr>func_calls := func_calls s @ [a],
                             func_return := func_return s @ [join_block],
                             func_return_val := func_return_val s @ [retval]\<rparr>))
    (thenM (emit_stmt (Some body))
    (thenM (modifyM (\<lambda>s. s\<lparr>func_return_val := butlast (func_return_val s),
                             func_return := butlast (func_return s),
                             func_calls := butlast (func_calls s)\<rparr>))
    (bindM in_block (\<lambda>inb.
     thenM (whenM inb (emit_jmp join_block))
    (thenM (set_block join_block)
    (thenM (modifyM (\<lambda>s. s\<lparr>this_locals := old_locals\<rparr>))
       (returnM retval)))))))))))))"
| "emit_bool e =
     bindM (prog new_block) (\<lambda>else_block.
     bindM (prog new_block) (\<lambda>join_block.
     bindM (prog new_reg) (\<lambda>r.
     bindM (prog (new_imm 1)) (\<lambda>i1.
     thenM (emit_mov r i1)
    (thenM (emit_cond e join_block else_block)
    (thenM (set_block else_block)
    (bindM (prog (new_imm 0)) (\<lambda>i0.
     thenM (emit_mov r i0)
    (thenM (emit_jmp join_block)
    (thenM (set_block join_block)
       (returnM r)))))))))))"
| "emit_cond (Logical_or_expr tk l r) t_dest f_dest =
     bindM (prog new_block) (\<lambda>cont_block.
     thenM (emit_cond l t_dest cont_block)
    (thenM (set_block cont_block)
       (emit_cond r t_dest f_dest)))"
| "emit_cond (Logical_and_expr tk l r) t_dest f_dest =
     bindM (prog new_block) (\<lambda>cont_block.
     thenM (emit_cond l cont_block f_dest)
    (thenM (set_block cont_block)
       (emit_cond r t_dest f_dest)))"
| "emit_cond (Unary_expression tk opr x) t_dest f_dest =
     (if opr = ''!'' then emit_cond x f_dest t_dest
      else
        bindM (emit_expr (Unary_expression tk opr x)) (\<lambda>s0.
        bindM (prog (new_imm 0)) (\<lambda>s1.
        thenM (mk_jcond NE s0 s1 t_dest f_dest)
          clear_block)))"
| "emit_cond (Comparison tk opr l r) t_dest f_dest =
     bindM (emit_expr l) (\<lambda>s0.
     bindM (emit_expr r) (\<lambda>s1.
       case comparison_cond opr of
         None \<Rightarrow> throwM (SEMANTIC_ERROR ''unhandled comparison operator'' tk)
       | Some cond \<Rightarrow>
           thenM (mk_jcond cond s0 s1 t_dest f_dest)
             clear_block))"
| "emit_cond (Binary_expression tk opr l r) t_dest f_dest =
     (if opr = ''&'' then
        bindM (emit_expr l) (\<lambda>s0.
        bindM (emit_expr r) (\<lambda>s1.
        thenM (mk_jcond TEST s0 s1 t_dest f_dest)
          clear_block))
      else
        bindM (emit_expr (Binary_expression tk opr l r)) (\<lambda>s0.
        bindM (prog (new_imm 0)) (\<lambda>s1.
        thenM (mk_jcond NE s0 s1 t_dest f_dest)
          clear_block)))"
| "emit_cond (Literal_string tk str) t_dest f_dest =
     bindM (emit_expr (Literal_string tk str)) (\<lambda>s0.
     bindM (prog (new_imm 0)) (\<lambda>s1.
     thenM (mk_jcond NE s0 s1 t_dest f_dest)
       clear_block))"
| "emit_cond (Literal_number tk v) t_dest f_dest =
     bindM (emit_expr (Literal_number tk v)) (\<lambda>s0.
     bindM (prog (new_imm 0)) (\<lambda>s1.
     thenM (mk_jcond NE s0 s1 t_dest f_dest)
       clear_block))"
| "emit_cond (Symbol tk v) t_dest f_dest =
     bindM (emit_expr (Symbol tk v)) (\<lambda>s0.
     bindM (prog (new_imm 0)) (\<lambda>s1.
     thenM (mk_jcond NE s0 s1 t_dest f_dest)
       clear_block))"
| "emit_cond (Functioncall tk fs args) t_dest f_dest =
     bindM (emit_expr (Functioncall tk fs args)) (\<lambda>s0.
     bindM (prog (new_imm 0)) (\<lambda>s1.
     thenM (mk_jcond NE s0 s1 t_dest f_dest)
       clear_block))"
| "emit_stmt None = returnM ()"
| "emit_stmt (Some (Block ss)) = emit_stmts ss"
| "emit_stmts [] = returnM ()"
| "emit_stmts (s # ss) = thenM (emit_stmt (Some s)) (emit_stmts ss)"
| "emit_stmt (Some Null_statement) = returnM ()"
| "emit_stmt (Some (Expr_statement e)) = bindM (emit_expr e) (\<lambda>_. returnM ())"
| "emit_stmt (Some (If_statement c thenblock elseblock)) =
     bindM (prog new_block) (\<lambda>then_block.
     bindM (prog new_block) (\<lambda>join_block.
     thenM (case elseblock of
              Some els \<Rightarrow>
                bindM (prog new_block) (\<lambda>else_block.
                thenM (emit_cond c then_block else_block)
               (thenM (set_block then_block)
               (thenM (emit_stmt (Some thenblock))
               (bindM in_block (\<lambda>inb.
                thenM (whenM inb (emit_jmp join_block))
               (thenM (set_block else_block)
               (thenM (emit_stmt (Some els))
               (bindM in_block (\<lambda>inb2.
                  whenM inb2 (emit_jmp join_block))))))))))
            | None \<Rightarrow>
                thenM (emit_cond c then_block join_block)
               (thenM (set_block then_block)
               (thenM (emit_stmt (Some thenblock))
               (bindM in_block (\<lambda>inb.
                  whenM inb (emit_jmp join_block))))))
       (set_block join_block)))"
| "emit_stmt (Some (For_loop tk init c incr blk)) =
     bindM (getsM (\<lambda>s. target (this_prog s))) (\<lambda>tgt.
       if tgt = target_kernel_bpf then
         throwM (SEMANTIC_ERROR ''unsupported loop in bpf kernel probe'' tk)
       else
         bindM (prog new_block) (\<lambda>body_block.
         bindM (prog new_block) (\<lambda>iter_block.
         bindM (prog new_block) (\<lambda>test_block.
         bindM (prog new_block) (\<lambda>join_block.
         thenM (emit_stmt init)
        (bindM in_block (\<lambda>inb.
           if \<not> inb then returnM ()
           else
             thenM (emit_jmp test_block)
            (thenM (modifyM (\<lambda>s. s\<lparr>loop_break := loop_break s @ [join_block],
                                     loop_cont := loop_cont s @ [iter_block]\<rparr>))
            (thenM (set_block body_block)
            (thenM (emit_stmt (Some blk))
            (bindM in_block (\<lambda>inb2.
             thenM (whenM inb2 (emit_jmp iter_block))
            (thenM (modifyM (\<lambda>s. s\<lparr>loop_cont := butlast (loop_cont s),
                                     loop_break := butlast (loop_break s)\<rparr>))
            (thenM (set_block iter_block)
            (thenM (emit_stmt incr)
            (bindM in_block (\<lambda>inb3.
             thenM (whenM inb3 (emit_jmp test_block))
            (thenM (set_block test_block)
            (thenM (emit_cond c body_block join_block)
               (set_block join_block))))))))))))))))))))"
| "emit_stmt (Some (Foreach_loop tk indexes base array_slice sort_dir sort_col lim val blk)) =
     bindM (getsM (\<lambda>s. target (this_prog s))) (\<lambda>tgt.
       if tgt = target_kernel_bpf then
         throwM (SEMANTIC_ERROR ''unsupported loop in bpf kernel probe'' tk)
       else
         bindM (foreach_begin tk indexes base array_slice sort_dir sort_col (lim \<noteq> None))
           (\<lambda>fv.
         thenM (case lim of
                  None \<Rightarrow> returnM ()
                | Some l \<Rightarrow> bindM (emit_expr l) (\<lambda>lv. mk_mov (fe_limit fv) lv))
        (thenM (foreach_first_key fv)
        (thenM (emit_stmt (Some blk))
           (foreach_next_key fv val (lim \<noteq> None))))))"
| "emit_stmt (Some (Try_block try_blk catch_blk catch_error_var)) =
     bindM (prog new_block) (\<lambda>catch_block.
     bindM (prog new_block) (\<lambda>join_block.
     thenM (modifyM (\<lambda>s. s\<lparr>catch_jump := catch_jump s @ [catch_block]\<rparr>))
    (thenM (emit_stmt (Some try_blk))
    (thenM (modifyM (\<lambda>s. s\<lparr>catch_jump := butlast (catch_jump s)\<rparr>))
    (bindM in_block (\<lambda>inb.
     thenM (whenM inb (emit_jmp join_block))
    (thenM (set_block catch_block)
    (thenM (catch_error_message catch_error_var)
    (thenM (emit_stmt (Some catch_blk))
    (bindM in_block (\<lambda>inb2.
     thenM (whenM inb2 (emit_jmp join_block))
       (set_block join_block))))))))))))"
| "emit_stmt (Some (Return_statement tk v)) =
     bindM (getsM func_return) (\<lambda>fr.
       if fr = [] then throwM (SEMANTIC_ERROR ''cannot 'return' outside function'' tk)
       else
         bindM (getsM func_return_val) (\<lambda>frv.
         thenM (assertM (frv \<noteq> []) ''!func_return_val.empty ()'')
        (thenM (case v of
                  None \<Rightarrow> returnM ()
                | Some e \<Rightarrow>
                    bindM (emit_expr e) (\<lambda>ev.
                    bindM (getsM func_return_val) (\<lambda>frv2.
                    bindM (vector_back frv2 ''func_return_val'') (\<lambda>rv.
                      emit_mov rv ev))))
        (bindM (getsM func_return) (\<lambda>fr2.
         bindM (vector_back fr2 ''func_return'') (\<lambda>ret.
           emit_jmp ret))))))"
| "emit_stmt (Some (Break_statement tk)) = visit_break_statement tk"
| "emit_stmt (Some (Continue_statement tk)) = visit_continue_statement tk"
| "emit_stmt (Some (Next_statement tk)) = visit_next_statement tk"
| "emit_stmt (Some (Embeddedcode tk userspace statements)) =
     visit_embeddedcode tk userspace statements"
  by pat_completeness auto

text \<open>
  The visitors terminate: a call goes to a part of the tree, or stays at the
  same expression on the way from \<open>emit_expr\<close> through \<open>emit_bool\<close> to
  \<open>emit_cond\<close>, which comes back to \<open>emit_expr\<close> only for an expression that
  \<open>emit_expr\<close> does not pass to \<open>emit_bool\<close>.
\<close>

termination emit_expr
  by (relation "measure (case_sum
        (case_sum (\<lambda>e. 4 * size e + (if boolean_shape e then 3 else 0))
           (case_sum (\<lambda>e. 4 * size e + 2) (\<lambda>(e, t, f). 4 * size e + 1)))
        (case_sum
           (case_sum (\<lambda>es. 4 * size_list size es) (\<lambda>(f, args). 4 * size f))
           (case_sum (\<lambda>so. 4 * (case so of None \<Rightarrow> 0 | Some s \<Rightarrow> size s))
              (\<lambda>ss. 4 * size_list size ss + 1))))")
     (auto split: option.splits)

subsection \<open>Notions used to state the properties of the translator\<close>

text \<open>
  The number of instructions of the program, and an insertion point that
  stands at the end of the block \<open>b\<close> of the program.
\<close>

definition insn_count :: "bpf_unparser \<Rightarrow> nat" where
  "insn_count s = sum_list (map (\<lambda>b. length (insns b)) (blocks (this_prog s)))"

definition emitting_into :: "bpf_unparser \<Rightarrow> block_ptr \<Rightarrow> bool" where
  "emitting_into s b \<longleftrightarrow> this_ins s = Some b \<and> b < length (blocks (this_prog s))"

text \<open>
  A translator at the start of a probe: a program with one empty block, the
  insertion point in it, and no variable, loop, function or handler.
\<close>

definition entry_state :: "bpf_target \<Rightarrow> bpf_unparser" where
  "entry_state t =
     \<lparr> this_prog = (program_init t)\<lparr>blocks := [empty_block]\<rparr>, glob = globals_init,
       this_in_arg0 = None, this_ins = Some 0, loop_break = [], loop_cont = [],
       func_return = [], func_return_val = [], func_calls = [], error_status = 0,
       catch_jump = [], catch_msg = [], constraints = Map.empty, this_locals = [],
       ret0_block = None, exit_block = None \<rparr>"

section \<open>Properties\<close>

subsection \<open>Failure propagation\<close>

lemma bindE:
  assumes "bind m f = Inr y"
  obtains x where "m = Inr x" "f x = Inr y"
  using assms by (cases m) (simp_all add: bind_def)

lemma bind_Inr [simp]: "bind (Inr x) f = f x"
  by (simp add: bind_def)

lemma bind_Inl [simp]: "bind (Inl e) f = Inl e"
  by (simp add: bind_def)

subsection \<open>Temporary stack space\<close>

lemma use_tmp_space_eq:
  "use_tmp_space n p =
     (if max (max_tmp_space p) n \<le> MAX_BPF_STACK (target p)
      then Inr (p\<lparr>max_tmp_space := max (max_tmp_space p) n\<rparr>)
      else Inl (Assertion_failed ''max_tmp_space <= MAX_BPF_STACK(target)''))"
  by (auto simp: use_tmp_space_def Let_def max_def not_less)

text \<open>
  Claim C1.  Calling \<open>use_tmp_space n\<close> and then \<open>use_tmp_space m\<close> succeeds
  exactly when the maximum of the prior value, \<open>n\<close> and \<open>m\<close> is within the stack
  ceiling of the program's target, and then leaves \<open>max_tmp_space\<close> equal to that
  maximum (so it never decreases); otherwise the assertion fails.  The ceiling
  is 512 for the kernel target and 65536 for the userspace target.  On a
  program within its budget a call with the ceiling itself succeeds, and a call
  with the ceiling plus one fails on every program.
\<close>

theorem use_tmp_space_twice:
  "bind (use_tmp_space n p) (use_tmp_space m) =
     (if max (max (max_tmp_space p) n) m \<le> MAX_BPF_STACK (target p)
      then Inr (p\<lparr>max_tmp_space := max (max (max_tmp_space p) n) m\<rparr>)
      else Inl (Assertion_failed ''max_tmp_space <= MAX_BPF_STACK(target)''))
   \<and> MAX_BPF_STACK target_kernel_bpf = 512
   \<and> MAX_BPF_STACK target_user_bpfinterp = 65536
   \<and> (max_tmp_space p \<le> MAX_BPF_STACK (target p) \<longrightarrow>
        use_tmp_space (MAX_BPF_STACK (target p)) p =
          Inr (p\<lparr>max_tmp_space := MAX_BPF_STACK (target p)\<rparr>))
   \<and> use_tmp_space (MAX_BPF_STACK (target p) + 1) p =
        Inl (Assertion_failed ''max_tmp_space <= MAX_BPF_STACK(target)'')"
proof -
  have ceil: "MAX_BPF_STACK t = 512 \<or> MAX_BPF_STACK t = 65536" for t
    by (simp add: MAX_BPF_STACK_def MAX_BPF_KERNEL_STACK_def MAX_BPF_USER_STACK_def)
  have lt: "MAX_BPF_STACK t < MAX_BPF_STACK t + 1" for t
    using ceil [of t] by auto
  have over: "\<not> max (max_tmp_space p) (MAX_BPF_STACK (target p) + 1) \<le> MAX_BPF_STACK (target p)"
  proof -
    have "MAX_BPF_STACK (target p) + 1 \<le> max (max_tmp_space p) (MAX_BPF_STACK (target p) + 1)"
      by simp
    with lt [of "target p"]
    have "MAX_BPF_STACK (target p) < max (max_tmp_space p) (MAX_BPF_STACK (target p) + 1)"
      by (rule less_le_trans)
    then show ?thesis by (simp only: not_le)
  qed
  have two: "bind (use_tmp_space n p) (use_tmp_space m) =
     (if max (max (max_tmp_space p) n) m \<le> MAX_BPF_STACK (target p)
      then Inr (p\<lparr>max_tmp_space := max (max (max_tmp_space p) n) m\<rparr>)
      else Inl (Assertion_failed ''max_tmp_space <= MAX_BPF_STACK(target)''))"
    by (auto simp: bind_def use_tmp_space_eq max_def split: if_splits)
  have at: "max_tmp_space p \<le> MAX_BPF_STACK (target p) \<longrightarrow>
        use_tmp_space (MAX_BPF_STACK (target p)) p =
          Inr (p\<lparr>max_tmp_space := MAX_BPF_STACK (target p)\<rparr>)"
    by (simp add: use_tmp_space_eq max_def)
  have above: "use_tmp_space (MAX_BPF_STACK (target p) + 1) p =
        Inl (Assertion_failed ''max_tmp_space <= MAX_BPF_STACK(target)'')"
    using over by (simp add: use_tmp_space_eq)
  show ?thesis
    using two at above
    by (simp add: MAX_BPF_STACK_def MAX_BPF_KERNEL_STACK_def MAX_BPF_USER_STACK_def)
qed

theorem use_tmp_space_twice_witness:
  "max_tmp_space \<lparr>target = target_kernel_bpf, max_tmp_space = 8\<rparr> \<le> MAX_BPF_STACK target_kernel_bpf
   \<and> bind (use_tmp_space 16 \<lparr>target = target_kernel_bpf, max_tmp_space = 8\<rparr>) (use_tmp_space 4)
       = Inr \<lparr>target = target_kernel_bpf, max_tmp_space = 16\<rparr>
   \<and> use_tmp_space 512 \<lparr>target = target_kernel_bpf, max_tmp_space = 8\<rparr>
       = Inr \<lparr>target = target_kernel_bpf, max_tmp_space = 512\<rparr>
   \<and> use_tmp_space 513 \<lparr>target = target_kernel_bpf, max_tmp_space = 8\<rparr>
       = Inl (Assertion_failed ''max_tmp_space <= MAX_BPF_STACK(target)'')"
  using use_tmp_space_twice [of 16 "\<lparr>target = target_kernel_bpf, max_tmp_space = 8\<rparr>" 4]
  by (simp add: MAX_BPF_STACK_def MAX_BPF_KERNEL_STACK_def)

subsection \<open>Interning of statistics maps\<close>

lemma intern_fields_ok:
  "set sfs \<subseteq> dom sm \<Longrightarrow> intern_fields sfs sm ism = Inr (ism @ map (\<lambda>sf. the (sm sf)) sfs)"
  by (induction sfs arbitrary: ism) (auto split: option.splits)

lemma deintern_fields_lookup:
  "foldl (\<lambda>sm (sf, map_id). sm(sf \<mapsto> map_id)) m (zip sfs (map f sfs)) x =
     (if x \<in> set sfs then Some (f x) else m x)"
  by (induction sfs arbitrary: m) auto

lemma deintern_intern_fields:
  assumes "dom sm = set sfs"
  shows "\<exists>ism. intern_fields sfs sm [] = Inr ism \<and> length ism = length sfs
               \<and> deintern_fields sfs ism = sm"
proof -
  have 1: "intern_fields sfs sm [] = Inr (map (\<lambda>sf. the (sm sf)) sfs)"
    using intern_fields_ok [of sfs sm "[]"] assms by simp
  have 2: "deintern_fields sfs (map (\<lambda>sf. the (sm sf)) sfs) = sm"
  proof
    fix x
    show "deintern_fields sfs (map (\<lambda>sf. the (sm sf)) sfs) x = sm x"
    proof (cases "x \<in> set sfs")
      case True
      with assms obtain v where "sm x = Some v" by (auto simp: dom_def)
      with True show ?thesis by (simp add: deintern_fields_def deintern_fields_lookup)
    next
      case False
      with assms have "sm x = None" by (auto simp: dom_def)
      with False show ?thesis by (simp add: deintern_fields_def deintern_fields_lookup)
    qed
  qed
  show ?thesis using 1 2 by simp
qed

text \<open>
  Claim C5.  For every statistics map whose key set is exactly the list
  \<open>stat_fields\<close>, interning succeeds (no assertion fails), the table has one
  entry per field, and de-interning the table gives back the original
  association of fields to map identifiers.
\<close>

theorem stats_map_roundtrip:
  "dom sm = set stat_fields \<Longrightarrow>
     \<exists>ism. intern_stats_map sm = Inr ism \<and> length ism = length stat_fields
           \<and> deintern_stats_map ism = sm"
  unfolding intern_stats_map_def deintern_stats_map_def by (rule deintern_intern_fields)

theorem stats_map_roundtrip_witness:
  "dom [''count'' \<mapsto> (2::int), ''sum'' \<mapsto> 3] = set stat_fields
   \<and> intern_stats_map [''count'' \<mapsto> 2, ''sum'' \<mapsto> 3] = Inr [2, 3]
   \<and> deintern_stats_map [2, 3] = [''count'' \<mapsto> 2, ''sum'' \<mapsto> 3]"
proof -
  have d: "dom [''count'' \<mapsto> (2::int), ''sum'' \<mapsto> 3] = set stat_fields"
    by (auto simp: stat_fields_def)
  have i: "intern_stats_map [''count'' \<mapsto> 2, ''sum'' \<mapsto> 3] = Inr [2, 3]"
    by (simp add: intern_stats_map_def stat_fields_def)
  from stats_map_roundtrip [OF d] i show ?thesis using d by auto
qed

subsection \<open>Interning of foreach descriptors\<close>

lemma ucast_scast_32_64: "ucast (scast (x :: 32 word) :: 64 word) = x"
proof -
  have "(ucast :: 64 word \<Rightarrow> 32 word) = scast"
    by (rule down_cast_same) (simp add: is_down)
  then have "(ucast (scast x :: 64 word) :: 32 word) = scast (scast x :: 64 word)"
    by simp
  also have "\<dots> = x"
    by (rule scast_up_scast_id) (simp add: is_up)
  finally show ?thesis .
qed

lemma ucast_ucast_32_64: "ucast (ucast (x :: 32 word) :: 64 word) = x"
  by (rule ucast_up_ucast_id) (simp add: is_up)

text \<open>
  Claim C10.  For every \<open>foreach_info\<close> record (the sentinel
  \<open>sort_column_ofs = -1\<close> and a negative \<open>sort_direction\<close> included), the
  interned vector has exactly \<open>n_foreach_info_fields = 5\<close> elements, so the
  size assertion of \<open>deintern_foreach_info\<close> holds, and de-interning it
  returns the original record.
\<close>

theorem foreach_info_roundtrip:
  "length (intern_foreach_info fi) = n_foreach_info_fields
   \<and> n_foreach_info_fields = 5
   \<and> deintern_foreach_info (intern_foreach_info fi) = Inr fi"
  by (simp add: intern_foreach_info_def deintern_foreach_info_def n_foreach_info_fields_def
      ucast_scast_32_64 ucast_ucast_32_64)

subsection \<open>Pooling of immediates and strings\<close>

lemma mk_value_simps [simp]:
  "is_imm (mk_imm i)" "\<not> is_str (mk_imm i)" "imm_val (mk_imm i) = i"
  "is_str (mk_str s f)" "\<not> is_imm (mk_str s f)" "str_val (mk_str s f) = s"
  "format_str (mk_str s f) = f"
  "\<not> is_imm (mk_reg r)" "\<not> is_str (mk_reg r)"
  "\<not> is_imm (mk_hardreg r)" "\<not> is_str (mk_hardreg r)"
  by (simp_all add: is_imm_def is_str_def mk_imm_def mk_str_def mk_reg_def mk_hardreg_def mk_value_def)

































subsection \<open>The storage layout planner\<close>

lemma map_fst_assign:
  "map fst (assign k v xs) = (if k \<in> set (map fst xs) then map fst xs else map fst xs @ [k])"
  by (induction xs) (force split: if_splits)+

lemma length_assign:
  "length (assign k v xs) = (if k \<in> fst ` set xs then length xs else Suc (length xs))"
  using arg_cong [OF map_fst_assign [of k v xs], of length] by (simp split: if_splits)

lemma keys_assign: "fst ` set (assign k v xs) = insert k (fst ` set xs)"
  using arg_cong [OF map_fst_assign [of k v xs], of set] by (auto split: if_splits)

lemma bump_sim:
  assumes "same_layout g g'" "bump_max_entries i g = Inr (x, g1)"
  shows "\<exists>g1'. bump_max_entries i g' = Inr (x, g1') \<and> same_layout g1 g1'
           \<and> globals g1' = globals g' \<and> aggregates g1' = aggregates g' \<and> array_stats g1' = array_stats g'"
  using assms by (auto simp: bump_max_entries_def same_layout_def Let_def split: if_splits)

lemma bump_frame:
  assumes "bump_max_entries i g = Inr (x, g1)"
  shows "globals g1 = globals g \<and> aggregates g1 = aggregates g \<and> array_stats g1 = array_stats g
         \<and> scalar_stats g1 = scalar_stats g
         \<and> length (maps g1) = length (maps g) \<and> 0 \<le> i \<and> nat i < length (maps g)"
  using assms by (auto simp: bump_max_entries_def Let_def split: if_splits)

lemma push_sim:
  assumes "same_layout g g'" "push_map m g = (x, g1)"
  shows "\<exists>g1'. push_map m g' = (x, g1') \<and> same_layout g1 g1'
           \<and> globals g1' = globals g' \<and> aggregates g1' = aggregates g' \<and> array_stats g1' = array_stats g'"
  using assms by (auto simp: push_map_def same_layout_def)

lemma push_frame:
  assumes "push_map m g = (x, g1)"
  shows "globals g1 = globals g \<and> aggregates g1 = aggregates g \<and> array_stats g1 = array_stats g
         \<and> scalar_stats g1 = scalar_stats g
         \<and> length (maps g1) = Suc (length (maps g)) \<and> x = int (length (maps g))"
  using assms by (auto simp: push_map_def)

lemma new_scalar_stats_sim:
  "same_layout g g' \<Longrightarrow> same_layout (new_scalar_stats fs g) (new_scalar_stats fs g')"
  by (induction fs arbitrary: g g') (auto simp: push_map_def same_layout_def)

lemma new_scalar_stats_frame:
  "globals (new_scalar_stats fs g) = globals g \<and> aggregates (new_scalar_stats fs g) = aggregates g
   \<and> array_stats (new_scalar_stats fs g) = array_stats g
   \<and> length (maps (new_scalar_stats fs g)) = length (maps g) + length fs"
  by (induction fs arbitrary: g) (auto simp: push_map_def)

lemma add_scalar_stat_sim:
  "same_layout g g' \<Longrightarrow> add_scalar_stat fs i g = Inr (x, g1) \<Longrightarrow>
     \<exists>g1'. add_scalar_stat fs i g' = Inr (x, g1') \<and> same_layout g1 g1'
           \<and> globals g1' = globals g' \<and> aggregates g1' = aggregates g'
           \<and> array_stats g1' = array_stats g'"
proof (induction fs arbitrary: i g g')
  case Nil
  then show ?case by auto
next
  case (Cons f fs)
  let ?pick = "\<lambda>g. (case scalar_stats g f of
               Some i \<Rightarrow> (i, g)
             | None \<Rightarrow> (0, g\<lparr>scalar_stats := (scalar_stats g)(f \<mapsto> 0)\<rparr>))"
  obtain m h where p: "?pick g = (m, h)" by (cases "?pick g")
  obtain m' h' where p': "?pick g' = (m', h')" by (cases "?pick g'")
  from Cons.prems(1) p p' have mh: "m' = m" "same_layout h h'"
    "globals h' = globals g'" "aggregates h' = aggregates g'" "array_stats h' = array_stats g'"
    by (auto simp: same_layout_def split: option.splits)
  from Cons.prems(2) p obtain c g2 where
    b: "bump_max_entries m h = Inr (c, g2)" and
    r: "(if i = - 1 then add_scalar_stat fs c g2
         else if c = i then add_scalar_stat fs i g2
         else Inl (Assertion_failed ''check_idx == this_idx'')) = Inr (x, g1)"
    by (auto elim!: bindE)
  from bump_sim [OF mh(2) b] obtain g2' where
    b': "bump_max_entries m h' = Inr (c, g2')" and s2: "same_layout g2 g2'"
    and f2: "globals g2' = globals h'" "aggregates g2' = aggregates h'"
      "array_stats g2' = array_stats h'"
    by blast
  have "\<exists>g1'. (if i = - 1 then add_scalar_stat fs c g2'
         else if c = i then add_scalar_stat fs i g2'
         else Inl (Assertion_failed ''check_idx == this_idx'')) = Inr (x, g1')
        \<and> same_layout g1 g1' \<and> globals g1' = globals g2' \<and> aggregates g1' = aggregates g2'
        \<and> array_stats g1' = array_stats g2'"
    using r Cons.IH [OF s2] by (auto split: if_splits)
  then show ?case using p' mh b' f2 by auto
qed

lemma add_scalar_stat_frame:
  "add_scalar_stat fs i g = Inr (x, g1) \<Longrightarrow>
     globals g1 = globals g \<and> aggregates g1 = aggregates g \<and> array_stats g1 = array_stats g
     \<and> length (maps g1) = length (maps g)"
proof (induction fs arbitrary: i g)
  case Nil
  then show ?case by auto
next
  case (Cons f fs)
  let ?pick = "(case scalar_stats g f of
               Some i \<Rightarrow> (i, g)
             | None \<Rightarrow> (0, g\<lparr>scalar_stats := (scalar_stats g)(f \<mapsto> 0)\<rparr>))"
  obtain m h where p: "?pick = (m, h)" by (cases "?pick")
  then have fh: "globals h = globals g" "aggregates h = aggregates g" "array_stats h = array_stats g"
    "maps h = maps g"
    by (auto split: option.splits)
  from Cons.prems p obtain c g2 where
    b: "bump_max_entries m h = Inr (c, g2)" and
    r: "(if i = - 1 then add_scalar_stat fs c g2
         else if c = i then add_scalar_stat fs i g2
         else Inl (Assertion_failed ''check_idx == this_idx'')) = Inr (x, g1)"
    by (auto elim!: bindE)
  from r have "globals g1 = globals g2 \<and> aggregates g1 = aggregates g2
       \<and> array_stats g1 = array_stats g2 \<and> length (maps g1) = length (maps g2)"
    using Cons.IH by (auto split: if_splits)
  with bump_frame [OF b] fh show ?case by simp
qed

lemma index_key_size_attrs:
  "index_types v = index_types v' \<Longrightarrow> index_key_size v n k = Inr r \<Longrightarrow>
     index_key_size v' n k = Inr r"
  by (induction v n k rule: index_key_size.induct) (auto split: if_splits exp_type.splits)

lemma new_array_stats_sim:
  "same_layout g g' \<Longrightarrow> (ptr v \<in> agg_keys g \<longleftrightarrow> ptr v' \<in> agg_keys g') \<Longrightarrow>
     same_layout (new_array_stats fs v ks me g) (new_array_stats fs v' ks me g')"
proof (induction fs arbitrary: g g')
  case Nil
  then show ?case by simp
next
  case (Cons f fs)
  show ?case
    using Cons.prems
    by (simp add: push_map_def Let_def)
       (rule Cons.IH, auto simp: same_layout_def agg_keys_def length_assign keys_assign)
qed

lemma new_array_stats_frame:
  "globals (new_array_stats fs v ks me g) = globals g
   \<and> scalar_stats (new_array_stats fs v ks me g) = scalar_stats g
   \<and> length (maps (new_array_stats fs v ks me g)) = length (maps g) + length fs
   \<and> agg_keys (new_array_stats fs v ks me g) \<subseteq> insert (ptr v) (agg_keys g)"
proof (induction fs arbitrary: g)
  case Nil
  then show ?case by auto
next
  case (Cons f fs)
  let ?g3 = "g\<lparr>maps := maps g @ [\<lparr> map_type = BPF_MAP_TYPE_PERCPU_HASH, key_size = ks,
      value_size = 8, max_entries = me, map_flags = 0 \<rparr>],
    array_stats := (array_stats g)(ptr v \<mapsto>
       (case array_stats g (ptr v) of None \<Rightarrow> Map.empty | Some sm \<Rightarrow> sm)(f \<mapsto> int (length (maps g)))),
    aggregates := assign (ptr v) (1 + int (length (aggregates g))) (aggregates g)\<rparr>"
  have e: "new_array_stats (f # fs) v ks me g = new_array_stats fs v ks me ?g3"
    by (simp add: push_map_def Let_def)
  have k: "agg_keys ?g3 = insert (ptr v) (agg_keys g)"
    by (simp add: agg_keys_def keys_assign)
  from Cons.IH [of ?g3] show ?case unfolding e k by auto
qed

lemma plan_scalar_sim:
  assumes t: "type v = type v'" and sl: "same_layout g g'"
    and run: "plan_scalar v (lm, sm, g) = Inr ((lm1, sm1, g1), tm, ti)"
  shows "\<exists>g1'. plan_scalar v' (lm, sm, g') = Inr ((lm1, sm1, g1'), tm, ti) \<and> same_layout g1 g1'
           \<and> globals g1' = globals g' \<and> aggregates g1' = aggregates g'"
proof (cases "type v")
  case pe_unknown
  with run show ?thesis by (simp add: plan_scalar_def)
next
  case pe_long
  let ?m = "\<lparr> map_type = BPF_MAP_TYPE_ARRAY, key_size = 4, value_size = 8,
             max_entries = 0, map_flags = 0 \<rparr>"
  let ?pick = "\<lambda>g. (if lm < 0 then push_map ?m g else (lm, g))"
  obtain a h where p: "?pick g = (a, h)" by (cases "?pick g")
  obtain a' h' where p': "?pick g' = (a', h')" by (cases "?pick g'")
  from sl p p' have ah: "a' = a" "same_layout h h'" "globals h' = globals g'"
    "aggregates h' = aggregates g'"
    by (auto simp: push_map_def same_layout_def split: if_splits)
  from run pe_long p obtain g2 where
    b: "bump_max_entries a h = Inr (ti, g2)" and r: "lm1 = a" "sm1 = sm" "g1 = g2" "tm = a"
    by (auto simp: plan_scalar_def elim!: bindE)
  from bump_sim [OF ah(2) b] obtain g2' where
    "bump_max_entries a h' = Inr (ti, g2')" "same_layout g2 g2'"
    "globals g2' = globals h'" "aggregates g2' = aggregates h'"
    by blast
  with pe_long t p' ah r show ?thesis by (simp add: plan_scalar_def)
next
  case pe_string
  let ?m = "\<lparr> map_type = BPF_MAP_TYPE_ARRAY, key_size = 4, value_size = BPF_MAXSTRINGLEN,
             max_entries = 0, map_flags = 0 \<rparr>"
  let ?pick = "\<lambda>g. (if sm < 0 then push_map ?m g else (sm, g))"
  obtain a h where p: "?pick g = (a, h)" by (cases "?pick g")
  obtain a' h' where p': "?pick g' = (a', h')" by (cases "?pick g'")
  from sl p p' have ah: "a' = a" "same_layout h h'" "globals h' = globals g'"
    "aggregates h' = aggregates g'"
    by (auto simp: push_map_def same_layout_def split: if_splits)
  from run pe_string p obtain g2 where
    b: "bump_max_entries a h = Inr (ti, g2)" and r: "lm1 = lm" "sm1 = a" "g1 = g2" "tm = a"
    by (auto simp: plan_scalar_def elim!: bindE)
  from bump_sim [OF ah(2) b] obtain g2' where
    "bump_max_entries a h' = Inr (ti, g2')" "same_layout g2 g2'"
    "globals g2' = globals h'" "aggregates g2' = aggregates h'"
    by blast
  with pe_string t p' ah r show ?thesis by (simp add: plan_scalar_def)
next
  case pe_stats
  let ?pick = "\<lambda>g. (if dom (scalar_stats g) = {} then new_scalar_stats stat_fields g else g)"
  have h: "same_layout (?pick g) (?pick g')" "globals (?pick g') = globals g'"
    "aggregates (?pick g') = aggregates g'"
    using sl new_scalar_stats_sim [OF sl, of stat_fields] new_scalar_stats_frame [of stat_fields g']
    by (auto simp: same_layout_def)
  from run pe_stats obtain g2 where
    b: "add_scalar_stat stat_fields (- 1) (?pick g) = Inr (ti, g2)"
    and r: "lm1 = lm" "sm1 = sm" "g1 = g2" "tm = - 1" "ti \<ge> 0"
    by (auto simp: plan_scalar_def Let_def elim!: bindE split: if_splits)
  from add_scalar_stat_sim [OF h(1) b] obtain g2' where
    "add_scalar_stat stat_fields (- 1) (?pick g') = Inr (ti, g2')" "same_layout g2 g2'"
    "globals g2' = globals (?pick g')" "aggregates g2' = aggregates (?pick g')"
    by blast
  with pe_stats t h r show ?thesis by (simp add: plan_scalar_def Let_def)
qed

lemma plan_scalar_frame:
  assumes "plan_scalar v (lm, sm, g) = Inr ((lm1, sm1, g1), tm, ti)"
  shows "globals g1 = globals g \<and> aggregates g1 = aggregates g"
proof (cases "type v")
  case pe_unknown
  with assms show ?thesis by (simp add: plan_scalar_def)
next
  case pe_long
  with assms show ?thesis
    by (auto simp: plan_scalar_def push_map_def elim!: bindE dest!: bump_frame split: if_splits)
next
  case pe_string
  with assms show ?thesis
    by (auto simp: plan_scalar_def push_map_def elim!: bindE dest!: bump_frame split: if_splits)
next
  case pe_stats
  with assms show ?thesis
    using new_scalar_stats_frame [of stat_fields g]
    by (auto simp: plan_scalar_def Let_def elim!: bindE dest!: add_scalar_stat_frame
        split: if_splits)
qed

lemma plan_array_sim:
  assumes a: "decl_attrs v = decl_attrs v'" and sl: "same_layout g g'"
    and k: "ptr v \<in> agg_keys g \<longleftrightarrow> ptr v' \<in> agg_keys g'"
    and run: "plan_array v (lm, sm, g) = Inr ((lm1, sm1, g1), tm, ti)"
  shows "\<exists>g1'. plan_array v' (lm, sm, g') = Inr ((lm1, sm1, g1'), tm, ti) \<and> same_layout g1 g1'
           \<and> globals g1' = globals g' \<and> agg_keys g1' \<subseteq> insert (ptr v') (agg_keys g')"
proof -
  from a have eqs: "type v' = type v" "arity v' = arity v" "index_types v' = index_types v"
    "maxsize v' = maxsize v"
    by (simp_all add: decl_attrs_def)
  from run obtain ks where ks: "index_key_size v (nat (arity v mod 2 ^ 32)) 0 = Inr ks"
    by (auto simp: plan_array_def elim!: bindE)
  then have ks': "index_key_size v' (nat (arity v' mod 2 ^ 32)) 0 = Inr ks"
    using eqs index_key_size_attrs [of v v'] by simp
  define me where "me = (if maxsize v > 0 then nat (maxsize v) else BPF_MAXMAPENTRIES)"
  show ?thesis
  proof (cases "type v = pe_stats")
    case True
    let ?h = "g\<lparr>array_stats := (array_stats g)(ptr v \<mapsto> Map.empty)\<rparr>"
    let ?h' = "g'\<lparr>array_stats := (array_stats g')(ptr v' \<mapsto> Map.empty)\<rparr>"
    have 1: "same_layout ?h ?h'" using sl by (simp add: same_layout_def)
    have 2: "ptr v \<in> agg_keys ?h \<longleftrightarrow> ptr v' \<in> agg_keys ?h'" using k by (simp add: agg_keys_def)
    from run True ks have r: "lm1 = lm" "sm1 = sm" "tm = - 1" "ti = - 1"
      "g1 = new_array_stats stat_fields v ks me ?h"
      by (simp_all add: plan_array_def me_def Let_def)
    have "plan_array v' (lm, sm, g')
            = Inr ((lm, sm, new_array_stats stat_fields v' ks me ?h'), - 1, - 1)"
      using True ks' eqs by (simp add: plan_array_def me_def Let_def)
    moreover have "agg_keys ?h' = agg_keys g'" by (simp add: agg_keys_def)
    ultimately show ?thesis
      using r new_array_stats_sim [OF 1 2, of stat_fields ks me]
        new_array_stats_frame [of stat_fields v' ks me ?h']
      by auto
  next
    case False
    with run ks sl eqs ks' show ?thesis
      by (cases "type v")
         (auto simp: plan_array_def Let_def push_map_def same_layout_def agg_keys_def)
  qed
qed

lemma plan_array_frame:
  assumes "plan_array v (lm, sm, g) = Inr ((lm1, sm1, g1), tm, ti)"
  shows "globals g1 = globals g \<and> agg_keys g1 \<subseteq> insert (ptr v) (agg_keys g)"
proof -
  from assms obtain ks where ks: "index_key_size v (nat (arity v mod 2 ^ 32)) 0 = Inr ks"
    by (auto simp: plan_array_def elim!: bindE)
  show ?thesis
  proof (cases "type v = pe_stats")
    case True
    let ?h = "g\<lparr>array_stats := (array_stats g)(ptr v \<mapsto> Map.empty)\<rparr>"
    have "agg_keys ?h = agg_keys g" by (simp add: agg_keys_def)
    with assms True ks show ?thesis
      using new_array_stats_frame
        [of stat_fields v ks "if maxsize v > 0 then nat (maxsize v) else BPF_MAXMAPENTRIES" ?h]
      by (auto simp: plan_array_def Let_def)
  next
    case False
    with assms ks show ?thesis
      by (cases "type v") (auto simp: plan_array_def Let_def push_map_def agg_keys_def)
  qed
qed

lemma translate_global_frame:
  assumes run: "translate_global v (lm, sm, g) = Inr (lm1, sm1, g1)" and ok: "keys_ok g"
  shows "ptr v \<notin> dom (globals g) \<and> keys_ok g1
         \<and> (\<exists>slot. globals g1 = (globals g)(ptr v \<mapsto> slot) \<and> map_id slot \<noteq> internal_map_idx)"
proof -
  from run obtain h tm ti where
    p: "(if arity v = 0 then plan_scalar v (lm, sm, g) else plan_array v (lm, sm, g))
          = Inr ((lm1, sm1, h), tm, ti)"
    and c: "tm \<noteq> internal_map_idx" "ptr v \<notin> dom (globals h)"
    and g1: "g1 = h\<lparr>globals := (globals h)(ptr v \<mapsto> \<lparr> map_id = tm, idx = ti \<rparr>)\<rparr>"
    by (auto simp: translate_global_def elim!: bindE split: if_splits)
  from p have f: "globals h = globals g \<and> agg_keys h \<subseteq> insert (ptr v) (agg_keys g)"
    using plan_scalar_frame [of v lm sm g lm1 sm1 h tm ti]
      plan_array_frame [of v lm sm g lm1 sm1 h tm ti]
    by (auto simp: agg_keys_def split: if_splits)
  have k1: "agg_keys g1 = agg_keys h" by (simp add: g1 agg_keys_def)
  have d1: "dom (globals g1) = insert (ptr v) (dom (globals g))" using f by (simp add: g1)
  have sub: "agg_keys h \<subseteq> insert (ptr v) (agg_keys g)" using f by simp
  have ko: "agg_keys g \<subseteq> dom (globals g)" using ok by (simp only: keys_ok_def)
  have 1: "keys_ok g1" unfolding keys_ok_def k1 d1 using sub ko by blast
  have 2: "globals g1 = (globals g)(ptr v \<mapsto> \<lparr> map_id = tm, idx = ti \<rparr>)"
    using f by (simp add: g1)
  have 3: "ptr v \<notin> dom (globals g)" using c f by simp
  have 4: "map_id \<lparr> map_id = tm, idx = ti \<rparr> \<noteq> internal_map_idx" using c by simp
  from 2 4 have "\<exists>slot. globals g1 = (globals g)(ptr v \<mapsto> slot) \<and> map_id slot \<noteq> internal_map_idx"
    by (intro exI conjI)
  with 1 3 show ?thesis by (intro conjI)
qed

lemma translate_global_sim:
  assumes a: "decl_attrs v = decl_attrs v'" and sl: "same_layout g g'"
    and ok: "keys_ok g" "keys_ok g'" and fresh: "ptr v' \<notin> dom (globals g')"
    and run: "translate_global v (lm, sm, g) = Inr (lm1, sm1, g1)"
  shows "\<exists>g1' slot. translate_global v' (lm, sm, g') = Inr (lm1, sm1, g1') \<and> same_layout g1 g1'
           \<and> keys_ok g1' \<and> globals g1 = (globals g)(ptr v \<mapsto> slot)
           \<and> globals g1' = (globals g')(ptr v' \<mapsto> slot)"
proof -
  from a have eqs: "type v' = type v" "arity v' = arity v"
    by (simp_all add: decl_attrs_def)
  from run obtain h tm ti where
    p: "(if arity v = 0 then plan_scalar v (lm, sm, g) else plan_array v (lm, sm, g))
          = Inr ((lm1, sm1, h), tm, ti)"
    and c: "tm \<noteq> internal_map_idx" "ptr v \<notin> dom (globals h)"
    and g1: "g1 = h\<lparr>globals := (globals h)(ptr v \<mapsto> \<lparr> map_id = tm, idx = ti \<rparr>)\<rparr>"
    by (auto simp: translate_global_def elim!: bindE split: if_splits)
  from translate_global_frame [OF run ok(1)] have nv: "ptr v \<notin> dom (globals g)" by simp
  with ok fresh have k: "ptr v \<in> agg_keys g \<longleftrightarrow> ptr v' \<in> agg_keys g'"
    by (auto simp: keys_ok_def)
  have fh: "globals h = globals g"
    using p plan_scalar_frame [of v lm sm g lm1 sm1 h tm ti]
      plan_array_frame [of v lm sm g lm1 sm1 h tm ti]
    by (auto split: if_splits)
  have "\<exists>h'. (if arity v' = 0 then plan_scalar v' (lm, sm, g') else plan_array v' (lm, sm, g'))
          = Inr ((lm1, sm1, h'), tm, ti) \<and> same_layout h h' \<and> globals h' = globals g'
          \<and> agg_keys h' \<subseteq> insert (ptr v') (agg_keys g')"
  proof (cases "arity v = 0")
    case True
    with p have "plan_scalar v (lm, sm, g) = Inr ((lm1, sm1, h), tm, ti)" by simp
    from plan_scalar_sim [OF eqs(1) [symmetric] sl this] True eqs show ?thesis
      by (auto simp: agg_keys_def)
  next
    case False
    with p have "plan_array v (lm, sm, g) = Inr ((lm1, sm1, h), tm, ti)" by simp
    from plan_array_sim [OF a sl k this] False eqs show ?thesis by auto
  qed
  then obtain h' where
    p': "(if arity v' = 0 then plan_scalar v' (lm, sm, g') else plan_array v' (lm, sm, g'))
          = Inr ((lm1, sm1, h'), tm, ti)"
    and h': "same_layout h h'" "globals h' = globals g'"
      "agg_keys h' \<subseteq> insert (ptr v') (agg_keys g')"
    by blast
  let ?g1' = "h'\<lparr>globals := (globals h')(ptr v' \<mapsto> \<lparr> map_id = tm, idx = ti \<rparr>)\<rparr>"
  have "translate_global v' (lm, sm, g') = Inr (lm1, sm1, ?g1')"
    using p' c h' fresh by (simp add: translate_global_def)
  moreover have "same_layout g1 ?g1'" using h' g1 by (simp add: same_layout_def)
  moreover have "keys_ok ?g1'"
  proof -
    have e1: "agg_keys ?g1' = agg_keys h'" by (simp add: agg_keys_def)
    have e2: "dom (globals ?g1') = insert (ptr v') (dom (globals g'))" using h' by simp
    have ko: "agg_keys g' \<subseteq> dom (globals g')" using ok by (simp only: keys_ok_def)
    show ?thesis unfolding keys_ok_def e1 e2 using h'(3) ko by blast
  qed
  moreover have "globals g1 = (globals g)(ptr v \<mapsto> \<lparr> map_id = tm, idx = ti \<rparr>)"
    using fh by (simp add: g1)
  moreover have "globals ?g1' = (globals g')(ptr v' \<mapsto> \<lparr> map_id = tm, idx = ti \<rparr>)"
    using h' by simp
  ultimately show ?thesis by (intro exI conjI)
qed

lemma loop_frame:
  "translate_globals_loop vs (lm, sm, g) = Inr (lm1, sm1, g1) \<Longrightarrow> keys_ok g \<Longrightarrow>
     keys_ok g1 \<and> dom (globals g1) = dom (globals g) \<union> ptr ` set vs
     \<and> (\<forall>k \<in> dom (globals g). globals g1 k = globals g k)
     \<and> distinct (map ptr vs) \<and> ptr ` set vs \<inter> dom (globals g) = {}"
proof (induction vs arbitrary: lm sm g)
  case Nil
  then show ?case by simp
next
  case (Cons v vs)
  from Cons.prems(1) obtain lm2 sm2 g2 where
    step: "translate_global v (lm, sm, g) = Inr (lm2, sm2, g2)"
    and rest: "translate_globals_loop vs (lm2, sm2, g2) = Inr (lm1, sm1, g1)"
    by (auto elim!: bindE)
  from translate_global_frame [OF step Cons.prems(2)] obtain slot where
    f: "ptr v \<notin> dom (globals g)" "keys_ok g2" "globals g2 = (globals g)(ptr v \<mapsto> slot)"
    by blast
  from Cons.IH [OF rest f(2)] have ih:
    "keys_ok g1" "dom (globals g1) = dom (globals g2) \<union> ptr ` set vs"
    "\<forall>k \<in> dom (globals g2). globals g1 k = globals g2 k"
    "distinct (map ptr vs)" "ptr ` set vs \<inter> dom (globals g2) = {}"
    by blast+
  have d2: "dom (globals g2) = insert (ptr v) (dom (globals g))" using f(3) by simp
  have 1: "dom (globals g1) = dom (globals g) \<union> ptr ` set (v # vs)"
    unfolding ih(2) d2 by auto
  have 2: "\<forall>k \<in> dom (globals g). globals g1 k = globals g k"
  proof
    fix k assume k: "k \<in> dom (globals g)"
    with f(1) have "k \<noteq> ptr v" by auto
    with k ih(3) d2 f(3) show "globals g1 k = globals g k" by auto
  qed
  have 3: "distinct (map ptr (v # vs))" using ih(4,5) d2 by auto
  have 4: "ptr ` set (v # vs) \<inter> dom (globals g) = {}" using ih(5) d2 f(1) by auto
  from ih(1) 1 2 3 4 show ?case by (intro conjI)
qed

lemma loop_sim:
  "map decl_attrs vs = map decl_attrs vs' \<Longrightarrow> same_layout g g' \<Longrightarrow> keys_ok g \<Longrightarrow> keys_ok g' \<Longrightarrow>
   distinct (map ptr vs') \<Longrightarrow> ptr ` set vs' \<inter> dom (globals g') = {} \<Longrightarrow>
   translate_globals_loop vs (lm, sm, g) = Inr (lm1, sm1, g1) \<Longrightarrow>
     \<exists>g1'. translate_globals_loop vs' (lm, sm, g') = Inr (lm1, sm1, g1') \<and> same_layout g1 g1'
       \<and> (\<forall>i < length vs. globals g1 (ptr (vs ! i)) \<noteq> None
              \<and> globals g1' (ptr (vs' ! i)) = globals g1 (ptr (vs ! i)))"
proof (induction vs arbitrary: vs' lm sm g g')
  case Nil
  then show ?case by simp
next
  case (Cons v vs)
  from Cons.prems(1) obtain v' ws where vs': "vs' = v' # ws"
    and a: "decl_attrs v = decl_attrs v'" and as: "map decl_attrs vs = map decl_attrs ws"
    by (cases vs') auto
  from Cons.prems(7) obtain lm2 sm2 g2 where
    step: "translate_global v (lm, sm, g) = Inr (lm2, sm2, g2)"
    and rest: "translate_globals_loop vs (lm2, sm2, g2) = Inr (lm1, sm1, g1)"
    by (auto elim!: bindE)
  have fresh: "ptr v' \<notin> dom (globals g')" using Cons.prems(6) vs' by auto
  from translate_global_sim [OF a Cons.prems(2,3,4) fresh step] obtain g2' slot where
    step': "translate_global v' (lm, sm, g') = Inr (lm2, sm2, g2')"
    and s2: "same_layout g2 g2'" and ok2': "keys_ok g2'"
    and gl: "globals g2 = (globals g)(ptr v \<mapsto> slot)"
      "globals g2' = (globals g')(ptr v' \<mapsto> slot)"
    by blast
  from translate_global_frame [OF step Cons.prems(3)] have ok2: "keys_ok g2" by simp
  have dis: "distinct (map ptr ws)" using Cons.prems(5) vs' by simp
  have disj: "ptr ` set ws \<inter> dom (globals g2') = {}"
    using Cons.prems(5,6) vs' gl(2) by auto
  from Cons.IH [OF as s2 ok2 ok2' dis disj rest] obtain g1' where
    rest': "translate_globals_loop ws (lm2, sm2, g2') = Inr (lm1, sm1, g1')"
    and s1: "same_layout g1 g1'"
    and sl: "\<forall>i < length vs. globals g1 (ptr (vs ! i)) \<noteq> None
               \<and> globals g1' (ptr (ws ! i)) = globals g1 (ptr (vs ! i))"
    by blast
  from loop_frame [OF rest ok2] gl(1) have k1: "globals g1 (ptr v) = Some slot" by auto
  from loop_frame [OF rest' ok2'] gl(2) have k1': "globals g1' (ptr v') = Some slot" by auto
  have run': "translate_globals_loop vs' (lm, sm, g') = Inr (lm1, sm1, g1')"
    using step' rest' vs' by simp
  have "\<forall>i < length (v # vs). globals g1 (ptr ((v # vs) ! i)) \<noteq> None
          \<and> globals g1' (ptr (vs' ! i)) = globals g1 (ptr ((v # vs) ! i))"
  proof (intro allI impI)
    fix i assume "i < length (v # vs)"
    then show "globals g1 (ptr ((v # vs) ! i)) \<noteq> None
          \<and> globals g1' (ptr (vs' ! i)) = globals g1 (ptr ((v # vs) ! i))"
      using k1 k1' sl vs' by (cases i) auto
  qed
  with run' s1 show ?case by blast
qed

lemma plan_scalar_class:
  assumes "plan_scalar v (lm, sm, g) = Inr ((lm1, sm1, g1), tm, ti)"
  shows "length (maps g) \<le> length (maps g1) \<and> tm < int (length (maps g1))
         \<and> (tm < 0 \<or> tm = int (length (maps g)) \<or> (tm = lm \<and> 0 \<le> lm) \<or> (tm = sm \<and> 0 \<le> sm))
         \<and> (lm1 = lm \<or> lm1 = tm) \<and> (sm1 = sm \<or> sm1 = tm)"
proof (cases "type v")
  case pe_unknown
  with assms show ?thesis by (simp add: plan_scalar_def)
next
  case pe_long
  with assms show ?thesis
    by (auto simp: plan_scalar_def push_map_def elim!: bindE dest!: bump_frame split: if_splits)
next
  case pe_string
  with assms show ?thesis
    by (auto simp: plan_scalar_def push_map_def elim!: bindE dest!: bump_frame split: if_splits)
next
  case pe_stats
  with assms show ?thesis
    using new_scalar_stats_frame [of stat_fields g]
    by (auto simp: plan_scalar_def Let_def elim!: bindE dest!: add_scalar_stat_frame
        split: if_splits)
qed

lemma plan_array_class:
  assumes "plan_array v (lm, sm, g) = Inr ((lm1, sm1, g1), tm, ti)"
  shows "length (maps g) \<le> length (maps g1) \<and> tm < int (length (maps g1))
         \<and> (tm < 0 \<or> tm = int (length (maps g)))
         \<and> lm1 = lm \<and> sm1 = sm"
proof -
  from assms obtain ks where ks: "index_key_size v (nat (arity v mod 2 ^ 32)) 0 = Inr ks"
    by (auto simp: plan_array_def elim!: bindE)
  show ?thesis
  proof (cases "type v = pe_stats")
    case True
    let ?h = "g\<lparr>array_stats := (array_stats g)(ptr v \<mapsto> Map.empty)\<rparr>"
    from assms True ks show ?thesis
      using new_array_stats_frame
        [of stat_fields v ks "if maxsize v > 0 then nat (maxsize v) else BPF_MAXMAPENTRIES" ?h]
      by (auto simp: plan_array_def Let_def)
  next
    case False
    with assms ks show ?thesis
      by (cases "type v") (auto simp: plan_array_def Let_def push_map_def)
  qed
qed

lemma translate_global_class:
  assumes run: "translate_global v (lm, sm, g) = Inr (lm1, sm1, g1)"
    and ok: "keys_ok g" and sn: "seen (lm, sm, g)"
  shows "\<exists>slot. globals g1 = (globals g)(ptr v \<mapsto> slot) \<and> ptr v \<notin> dom (globals g)
           \<and> map_id slot \<noteq> 0
           \<and> (map_id slot < 0 \<or> map_id slot = int (length (maps g))
               \<or> (\<exists>k s. globals g k = Some s \<and> map_id s = map_id slot))
           \<and> seen (lm1, sm1, g1)"
proof -
  from run obtain h tm ti where
    p: "(if arity v = 0 then plan_scalar v (lm, sm, g) else plan_array v (lm, sm, g))
          = Inr ((lm1, sm1, h), tm, ti)"
    and c: "tm \<noteq> internal_map_idx" "ptr v \<notin> dom (globals h)"
    and g1: "g1 = h\<lparr>globals := (globals h)(ptr v \<mapsto> \<lparr> map_id = tm, idx = ti \<rparr>)\<rparr>"
    by (auto simp: translate_global_def elim!: bindE split: if_splits)
  have fh: "globals h = globals g"
    using p plan_scalar_frame [of v lm sm g lm1 sm1 h tm ti]
      plan_array_frame [of v lm sm g lm1 sm1 h tm ti]
    by (auto split: if_splits)
  have cl: "length (maps g) \<le> length (maps h) \<and> tm < int (length (maps h))
         \<and> (tm < 0 \<or> tm = int (length (maps g)) \<or> (tm = lm \<and> 0 \<le> lm) \<or> (tm = sm \<and> 0 \<le> sm))
         \<and> (lm1 = lm \<or> lm1 = tm) \<and> (sm1 = sm \<or> sm1 = tm)"
    using p plan_scalar_class [of v lm sm g lm1 sm1 h tm ti]
      plan_array_class [of v lm sm g lm1 sm1 h tm ti]
    by (auto split: if_splits)
  let ?slot = "\<lparr> map_id = tm, idx = ti \<rparr>"
  have 1: "globals g1 = (globals g)(ptr v \<mapsto> ?slot)" using fh by (simp add: g1)
  have 2: "ptr v \<notin> dom (globals g)" using c fh by simp
  have 3: "map_id ?slot \<noteq> 0" using c by (simp add: internal_map_idx_def)
  have sn1: "map_id s < int (length (maps g))" if "globals g k = Some s" for k s
    using sn that by (simp add: seen_def)
  have snl: "\<exists>k s. globals g k = Some s \<and> map_id s = lm" if "0 \<le> lm"
    using sn that by (simp add: seen_def)
  have sns: "\<exists>k s. globals g k = Some s \<and> map_id s = sm" if "0 \<le> sm"
    using sn that by (simp add: seen_def)
  have 4: "map_id ?slot < 0 \<or> map_id ?slot = int (length (maps g))
               \<or> (\<exists>k s. globals g k = Some s \<and> map_id s = map_id ?slot)"
    using cl snl sns by auto
  have m1: "maps g1 = maps h" by (simp add: g1)
  have 5: "seen (lm1, sm1, g1)"
    unfolding seen_def prod.case m1 1
  proof (intro conjI allI impI)
    fix k s assume "((globals g)(ptr v \<mapsto> ?slot)) k = Some s"
    then show "map_id s < int (length (maps h))"
    proof (cases "k = ptr v")
      case True
      with \<open>((globals g)(ptr v \<mapsto> ?slot)) k = Some s\<close> have "map_id s = tm" by auto
      with cl show ?thesis by simp
    next
      case False
      with \<open>((globals g)(ptr v \<mapsto> ?slot)) k = Some s\<close> have "globals g k = Some s" by simp
      from sn1 [OF this] cl show ?thesis by linarith
    qed
  next
    assume "0 \<le> lm1"
    then show "\<exists>k s. ((globals g)(ptr v \<mapsto> ?slot)) k = Some s \<and> map_id s = lm1"
    proof (cases "lm1 = tm")
      case True
      then show ?thesis by (intro exI [of _ "ptr v"] exI [of _ ?slot]) simp
    next
      case False
      with cl \<open>0 \<le> lm1\<close> have "lm1 = lm" "0 \<le> lm" by auto
      with snl obtain k s where "globals g k = Some s" "map_id s = lm1" by auto
      with 2 show ?thesis by (intro exI [of _ k] exI [of _ s]) auto
    qed
  next
    assume "0 \<le> sm1"
    then show "\<exists>k s. ((globals g)(ptr v \<mapsto> ?slot)) k = Some s \<and> map_id s = sm1"
    proof (cases "sm1 = tm")
      case True
      then show ?thesis by (intro exI [of _ "ptr v"] exI [of _ ?slot]) simp
    next
      case False
      with cl \<open>0 \<le> sm1\<close> have "sm1 = sm" "0 \<le> sm" by auto
      with sns obtain k s where "globals g k = Some s" "map_id s = sm1" by auto
      with 2 show ?thesis by (intro exI [of _ k] exI [of _ s]) auto
    qed
  qed
  from 1 2 3 4 5 show ?thesis by (intro exI [of _ ?slot] conjI)
qed

lemma loop_seen:
  "translate_globals_loop vs (lm, sm, g) = Inr (lm1, sm1, g1) \<Longrightarrow> keys_ok g \<Longrightarrow>
     seen (lm, sm, g) \<Longrightarrow> seen (lm1, sm1, g1) \<and> length (maps g) \<le> length (maps g1)"
proof (induction vs arbitrary: lm sm g)
  case Nil
  then show ?case by simp
next
  case (Cons v vs)
  from Cons.prems(1) obtain lm2 sm2 g2 where
    step: "translate_global v (lm, sm, g) = Inr (lm2, sm2, g2)"
    and rest: "translate_globals_loop vs (lm2, sm2, g2) = Inr (lm1, sm1, g1)"
    by (auto elim!: bindE)
  from translate_global_frame [OF step Cons.prems(2)] have ok2: "keys_ok g2" by simp
  from translate_global_class [OF step Cons.prems(2,3)] have s2: "seen (lm2, sm2, g2)" by blast
  have "length (maps g) \<le> length (maps g2)"
  proof -
    from step obtain h tm ti where
      p: "(if arity v = 0 then plan_scalar v (lm, sm, g) else plan_array v (lm, sm, g))
          = Inr ((lm2, sm2, h), tm, ti)"
      and g2: "g2 = h\<lparr>globals := (globals h)(ptr v \<mapsto> \<lparr> map_id = tm, idx = ti \<rparr>)\<rparr>"
      by (auto simp: translate_global_def elim!: bindE split: if_splits)
    from p have "length (maps g) \<le> length (maps h)"
      using plan_scalar_class [of v lm sm g lm2 sm2 h tm ti]
        plan_array_class [of v lm sm g lm2 sm2 h tm ti]
      by (auto split: if_splits)
    then show ?thesis by (simp add: g2)
  qed
  with Cons.IH [OF rest ok2 s2] show ?case by simp
qed

lemma loop_append:
  "translate_globals_loop (xs @ ys) st = bind (translate_globals_loop xs st) (translate_globals_loop ys)"
  by (induction xs arbitrary: st) (auto simp: bind_def split: sum.splits)

lemma first_seen:
  assumes run: "translate_globals_loop vs (lm0, sm0, g0) = Inr (lm1, sm1, r)"
    and ok: "keys_ok g0" and sn: "seen (lm0, sm0, g0)"
    and j: "j < length vs" and i: "i < j"
    and si: "globals r (ptr (vs ! i)) = Some si" and sj: "globals r (ptr (vs ! j)) = Some sj"
    and nonneg: "0 \<le> map_id sj"
    and first: "\<forall>k s. k \<in> dom (globals g0) \<union> ptr ` set (take j vs) \<longrightarrow> globals r k = Some s
                  \<longrightarrow> map_id s \<noteq> map_id sj"
  shows "map_id si < map_id sj"
proof -
  have split: "vs = take j vs @ (vs ! j # drop (Suc j) vs)"
    using j by (simp add: id_take_nth_drop [symmetric])
  from run have "bind (translate_globals_loop (take j vs) (lm0, sm0, g0))
      (translate_globals_loop (vs ! j # drop (Suc j) vs)) = Inr (lm1, sm1, r)"
    by (subst (asm) split) (simp only: loop_append)
  then obtain lm sm g lm2 sm2 g2 where
    run1: "translate_globals_loop (take j vs) (lm0, sm0, g0) = Inr (lm, sm, g)"
    and step: "translate_global (vs ! j) (lm, sm, g) = Inr (lm2, sm2, g2)"
    and run3: "translate_globals_loop (drop (Suc j) vs) (lm2, sm2, g2) = Inr (lm1, sm1, r)"
    by (auto elim!: bindE)
  from loop_frame [OF run1 ok] have okg: "keys_ok g"
    and dg: "dom (globals g) = dom (globals g0) \<union> ptr ` set (take j vs)"
    by blast+
  from loop_seen [OF run1 ok sn] have sg: "seen (lm, sm, g)" by simp
  from translate_global_class [OF step okg sg] obtain slot where
    g2: "globals g2 = (globals g)(ptr (vs ! j) \<mapsto> slot)"
    and nj: "ptr (vs ! j) \<notin> dom (globals g)"
    and cl: "map_id slot < 0 \<or> map_id slot = int (length (maps g))
               \<or> (\<exists>k s. globals g k = Some s \<and> map_id s = map_id slot)"
    by blast
  from translate_global_frame [OF step okg] have ok2: "keys_ok g2" by simp
  from loop_frame [OF run3 ok2] have keep: "\<forall>k \<in> dom (globals g2). globals r k = globals g2 k"
    by blast
  have old: "globals r k = globals g k" if "k \<in> dom (globals g)" for k
  proof -
    from that nj have "k \<noteq> ptr (vs ! j)" by auto
    with that g2 keep show ?thesis by auto
  qed
  have "globals r (ptr (vs ! j)) = Some slot" using g2 keep by auto
  with sj have slot: "slot = sj" by simp
  have "vs ! i \<in> set (take j vs)"
    using i j by (auto simp: in_set_conv_nth intro!: exI [of _ i])
  then have "ptr (vs ! i) \<in> dom (globals g)" using dg by auto
  from old [OF this] si have "globals g (ptr (vs ! i)) = Some si" by simp
  with sg have lt: "map_id si < int (length (maps g))" by (auto simp: seen_def)
  from cl show ?thesis
  proof (elim disjE exE conjE)
    assume "map_id slot < 0"
    with nonneg slot show ?thesis by simp
  next
    assume "map_id slot = int (length (maps g))"
    with lt slot show ?thesis by simp
  next
    fix k s assume ks: "globals g k = Some s" "map_id s = map_id slot"
    then have kd: "k \<in> dom (globals g)" by auto
    from old [OF kd] ks have "globals r k = Some s" by simp
    with first kd dg have "map_id s \<noteq> map_id sj" by blast
    with ks slot show ?thesis by simp
  qed
qed

lemma initial_planner:
  "keys_ok (build_internal_globals globals_init)"
  "seen (- 1, - 1, build_internal_globals globals_init)"
  "dom (globals (build_internal_globals globals_init)) = {Internal_exit, Internal_errors}"
  "\<forall>k s. globals (build_internal_globals globals_init) k = Some s \<longrightarrow> map_id s = 0"
  by (auto simp: keys_ok_def agg_keys_def seen_def build_internal_globals_def globals_init_def
      map_insert_def split: if_splits)

lemma distinct_ptr: "distinct (map addr vs) \<Longrightarrow> distinct (map ptr vs)"
  by (induction vs) (auto simp: ptr_def)

lemma planner_same_layout:
  assumes a: "map decl_attrs vs = map decl_attrs vs'" and d: "distinct (map addr vs')"
    and run: "translate_globals globals_init vs = Inr r"
  shows "\<exists>r'. translate_globals globals_init vs' = Inr r' \<and> maps r' = maps r
           \<and> scalar_stats r' = scalar_stats r
           \<and> (\<forall>i < length vs. globals r (ptr (vs ! i)) \<noteq> None
                 \<and> globals r' (ptr (vs' ! i)) = globals r (ptr (vs ! i)))"
proof -
  let ?g0 = "build_internal_globals globals_init"
  from run obtain lm1 sm1 where
    l: "translate_globals_loop vs (- 1, - 1, ?g0) = Inr (lm1, sm1, r)"
    by (auto simp: translate_globals_def elim!: bindE)
  have disj: "ptr ` set vs' \<inter> dom (globals ?g0) = {}"
    by (auto simp: initial_planner(3) ptr_def)
  have sl: "same_layout ?g0 ?g0" by (simp add: same_layout_def)
  from loop_sim [OF a sl initial_planner(1) initial_planner(1) distinct_ptr [OF d] disj l]
  obtain r' where
    l': "translate_globals_loop vs' (- 1, - 1, ?g0) = Inr (lm1, sm1, r')"
    and s: "same_layout r r'"
    and g: "\<forall>i < length vs. globals r (ptr (vs ! i)) \<noteq> None
              \<and> globals r' (ptr (vs' ! i)) = globals r (ptr (vs ! i))"
    by blast
  from l' have "translate_globals globals_init vs' = Inr r'" by (simp add: translate_globals_def)
  with s g show ?thesis by (auto simp: same_layout_def)
qed

lemma planner_first_seen:
  assumes run: "translate_globals globals_init vs = Inr r"
    and j: "j < length vs" and i: "i < j"
    and si: "globals r (ptr (vs ! i)) = Some si" and sj: "globals r (ptr (vs ! j)) = Some sj"
    and nonneg: "0 \<le> map_id sj"
    and first: "\<forall>k < j. \<forall>s. globals r (ptr (vs ! k)) = Some s \<longrightarrow> map_id s \<noteq> map_id sj"
  shows "map_id si < map_id sj"
proof -
  let ?g0 = "build_internal_globals globals_init"
  from run obtain lm1 sm1 where
    l: "translate_globals_loop vs (- 1, - 1, ?g0) = Inr (lm1, sm1, r)"
    by (auto simp: translate_globals_def elim!: bindE)
  have split: "vs = take j vs @ (vs ! j # drop (Suc j) vs)"
    using j by (simp add: id_take_nth_drop [symmetric])
  from l have "bind (translate_globals_loop (take j vs) (- 1, - 1, ?g0))
      (translate_globals_loop (vs ! j # drop (Suc j) vs)) = Inr (lm1, sm1, r)"
    by (subst (asm) split) (simp only: loop_append)
  then obtain lm sm g lm2 sm2 g2 where
    run1: "translate_globals_loop (take j vs) (- 1, - 1, ?g0) = Inr (lm, sm, g)"
    and step: "translate_global (vs ! j) (lm, sm, g) = Inr (lm2, sm2, g2)"
    and run3: "translate_globals_loop (drop (Suc j) vs) (lm2, sm2, g2) = Inr (lm1, sm1, r)"
    by (auto elim!: bindE)
  from loop_frame [OF run1 initial_planner(1)] have okg: "keys_ok g" by blast
  from loop_seen [OF run1 initial_planner(1,2)] have sg: "seen (lm, sm, g)" by simp
  from translate_global_class [OF step okg sg] obtain slot where
    g2: "globals g2 = (globals g)(ptr (vs ! j) \<mapsto> slot)" and nz: "map_id slot \<noteq> 0"
    by blast
  from translate_global_frame [OF step okg] have ok2: "keys_ok g2" by simp
  from loop_frame [OF run3 ok2] g2 have "globals r (ptr (vs ! j)) = Some slot" by auto
  with sj nz have nz: "map_id sj \<noteq> 0" by simp
  from loop_frame [OF l initial_planner(1)]
  have keep0: "\<forall>k \<in> dom (globals ?g0). globals r k = globals ?g0 k" by blast
  have "\<forall>k s. k \<in> dom (globals ?g0) \<union> ptr ` set (take j vs) \<longrightarrow> globals r k = Some s
                  \<longrightarrow> map_id s \<noteq> map_id sj"
  proof (intro allI impI)
    fix k s
    assume k: "k \<in> dom (globals ?g0) \<union> ptr ` set (take j vs)" and s: "globals r k = Some s"
    show "map_id s \<noteq> map_id sj"
    proof (cases "k \<in> dom (globals ?g0)")
      case True
      with keep0 s have "globals ?g0 k = Some s" by simp
      with initial_planner(4) have "map_id s = 0" by blast
      with nz show ?thesis by simp
    next
      case False
      with k have "k \<in> ptr ` set (take j vs)" by simp
      then obtain v where v: "v \<in> set (take j vs)" "k = ptr v" by auto
      then obtain n where n: "n < length (take j vs)" "take j vs ! n = v"
        by (auto simp: in_set_conv_nth)
      with j have "n < j" "vs ! n = v" by simp_all
      with first s v show ?thesis by blast
    qed
  qed
  from first_seen [OF l initial_planner(1,2) j i si sj nonneg this] show ?thesis .
qed

text \<open>
  Claim C9.  The planner is run on the fresh tables \<open>globals_init\<close>.  For two
  lists of declared variables with the same declared attributes (type, arity,
  index types, capacity) in the same order, whatever the identities of the
  variables, the two runs succeed or fail alike, and on success they give the
  same list of map definitions and, position by position, the same slot (map
  identifier and index) for every variable.  Map identifiers are allocated in
  first-seen order: a variable that is the first to use its map has a larger
  map identifier than every variable before it.
\<close>

theorem planner_deterministic:
  assumes a: "map decl_attrs vs = map decl_attrs vs'"
    and d: "distinct (map addr vs)" and d': "distinct (map addr vs')"
  shows "(\<forall>r. translate_globals globals_init vs = Inr r \<longrightarrow>
            (\<exists>r'. translate_globals globals_init vs' = Inr r' \<and> maps r' = maps r
               \<and> scalar_stats r' = scalar_stats r
               \<and> (\<forall>i < length vs. globals r (ptr (vs ! i)) \<noteq> None
                     \<and> globals r' (ptr (vs' ! i)) = globals r (ptr (vs ! i))))
            \<and> (\<forall>i j si sj. i < j \<and> j < length vs
                  \<and> globals r (ptr (vs ! i)) = Some si \<and> globals r (ptr (vs ! j)) = Some sj
                  \<and> 0 \<le> map_id sj
                  \<and> (\<forall>k < j. \<forall>s. globals r (ptr (vs ! k)) = Some s \<longrightarrow> map_id s \<noteq> map_id sj)
                  \<longrightarrow> map_id si < map_id sj))
       \<and> ((\<exists>e. translate_globals globals_init vs = Inl e) \<longrightarrow>
            (\<exists>e'. translate_globals globals_init vs' = Inl e'))"
proof (intro conjI allI impI)
  fix r assume "translate_globals globals_init vs = Inr r"
  from planner_same_layout [OF a d' this]
  show "\<exists>r'. translate_globals globals_init vs' = Inr r' \<and> maps r' = maps r
               \<and> scalar_stats r' = scalar_stats r
               \<and> (\<forall>i < length vs. globals r (ptr (vs ! i)) \<noteq> None
                     \<and> globals r' (ptr (vs' ! i)) = globals r (ptr (vs ! i)))" .
next
  fix r i j si sj
  assume run: "translate_globals globals_init vs = Inr r"
    and h: "i < j \<and> j < length vs
                  \<and> globals r (ptr (vs ! i)) = Some si \<and> globals r (ptr (vs ! j)) = Some sj
                  \<and> 0 \<le> map_id sj
                  \<and> (\<forall>k < j. \<forall>s. globals r (ptr (vs ! k)) = Some s \<longrightarrow> map_id s \<noteq> map_id sj)"
  from h have 1: "j < length vs" and 2: "i < j"
    and 3: "globals r (ptr (vs ! i)) = Some si" and 4: "globals r (ptr (vs ! j)) = Some sj"
    and 5: "0 \<le> map_id sj"
    and 6: "\<forall>k < j. \<forall>s. globals r (ptr (vs ! k)) = Some s \<longrightarrow> map_id s \<noteq> map_id sj"
    by blast+
  from run 1 2 3 4 5 6 show "map_id si < map_id sj" by (rule planner_first_seen)
next
  assume "\<exists>e. translate_globals globals_init vs = Inl e"
  then obtain e where e: "translate_globals globals_init vs = Inl e" ..
  show "\<exists>e'. translate_globals globals_init vs' = Inl e'"
  proof (cases "translate_globals globals_init vs'")
    case (Inl e')
    then show ?thesis by blast
  next
    case (Inr r')
    from planner_same_layout [OF a [symmetric] d Inr] e show ?thesis by auto
  qed
qed

lemmas planner_defs = translate_globals_def translate_global_def plan_scalar_def plan_array_def
  bump_max_entries_def push_map_def build_internal_globals_def globals_init_def map_insert_def
  stat_fields_def ptr_def internal_map_idx_def Let_def BPF_MAXSTRINGLEN_def
  BPF_MAXMAPENTRIES_def NUM_INTERNALS_def NUM_CPUS_PLACEHOLDER_def EXIT_def ERRORS_def
  decl_attrs_def

theorem planner_deterministic_witness:
  "\<exists>r r'.
     translate_globals globals_init
       [\<lparr>addr = 1, unmangled_name = ''a'', tok = 10, type = pe_long, arity = 0,
          index_types = [], maxsize = 0\<rparr>,
        \<lparr>addr = 2, unmangled_name = ''b'', tok = 11, type = pe_string, arity = 1,
          index_types = [pe_long], maxsize = 0\<rparr>] = Inr r
     \<and> translate_globals globals_init
       [\<lparr>addr = 7, unmangled_name = ''x'', tok = 20, type = pe_long, arity = 0,
          index_types = [], maxsize = 0\<rparr>,
        \<lparr>addr = 5, unmangled_name = ''y'', tok = 21, type = pe_string, arity = 1,
          index_types = [pe_long], maxsize = 0\<rparr>] = Inr r'
     \<and> maps r' = maps r
     \<and> globals r (Decl 1) = Some \<lparr>map_id = 2, idx = 0\<rparr>
     \<and> globals r' (Decl 7) = Some \<lparr>map_id = 2, idx = 0\<rparr>
     \<and> globals r (Decl 2) = Some \<lparr>map_id = 3, idx = - 1\<rparr>
     \<and> globals r' (Decl 5) = Some \<lparr>map_id = 3, idx = - 1\<rparr>"
proof -
  let ?vs = "[\<lparr>addr = 1, unmangled_name = ''a'', tok = 10, type = pe_long, arity = 0,
          index_types = [], maxsize = 0\<rparr>,
        \<lparr>addr = 2, unmangled_name = ''b'', tok = 11, type = pe_string, arity = 1,
          index_types = [pe_long], maxsize = 0\<rparr>]"
  let ?vs' = "[\<lparr>addr = 7, unmangled_name = ''x'', tok = 20, type = pe_long, arity = 0,
          index_types = [], maxsize = 0\<rparr>,
        \<lparr>addr = 5, unmangled_name = ''y'', tok = 21, type = pe_string, arity = 1,
          index_types = [pe_long], maxsize = 0\<rparr>]"
  have a: "map decl_attrs ?vs = map decl_attrs ?vs'" by (simp add: decl_attrs_def)
  have d: "distinct (map addr ?vs)" and d': "distinct (map addr ?vs')" by simp_all
  obtain r where r: "translate_globals globals_init ?vs = Inr r"
    and g: "globals r (Decl 1) = Some \<lparr>map_id = 2, idx = 0\<rparr>"
      "globals r (Decl 2) = Some \<lparr>map_id = 3, idx = - 1\<rparr>"
    by (simp add: planner_defs)
  from planner_deterministic [OF a d d', THEN conjunct1, rule_format, OF r, THEN conjunct1]
  obtain r' where r': "translate_globals globals_init ?vs' = Inr r'" "maps r' = maps r"
    and g': "\<forall>i < length ?vs. globals r' (ptr (?vs' ! i)) = globals r (ptr (?vs ! i))"
    by blast
  from g' [rule_format, of 0] g' [rule_format, of 1] g
  have "globals r' (Decl 7) = Some \<lparr>map_id = 2, idx = 0\<rparr>"
    "globals r' (Decl 5) = Some \<lparr>map_id = 3, idx = - 1\<rparr>"
    by (simp_all add: ptr_def)
  with r r' g show ?thesis by blast
qed

section \<open>Properties of the translator\<close>

subsection \<open>Running the operations of the translator\<close>

lemmas run_defs = returnM_def throwM_def bindM_def thenM_def getsM_def modifyM_def whenM_def
  assertM_def

lemmas eval_defs = entry_state_def program_init_def empty_block_def prog_def new_imm_def
  new_reg_def new_block_def max_reg_def MAX_BPF_REG_def mk_imm_def mk_reg_def mk_value_def
  mk_hardreg_def update_block_def this_block_def new_insn_def mk_jcond_def mk_mov_def
  mk_binary_def clear_block_def set_block_def in_block_def emit_jmp_def emit_mov_def
  visit_literal_number_def binary_opcode_def comparison_cond_def insn_count_def Let_def
  emitting_into_def

lemma prog_run: "prog f s = Inr (fst (f (this_prog s)), s\<lparr>this_prog := snd (f (this_prog s))\<rparr>)"
  by (simp add: prog_def split_beta)

lemma blocks_new_reg [simp]: "blocks (snd (new_reg p)) = blocks p"
  by (simp add: new_reg_def Let_def)

lemma blocks_new_imm [simp]: "blocks (snd (new_imm i p)) = blocks p"
  by (simp add: new_imm_def Let_def split: option.splits)

lemma sum_list_map_update:
  "b < length xs \<Longrightarrow>
   sum_list (map f (xs[b := y])) + f (xs ! b) = sum_list (map f xs) + (f y :: nat)"
proof (induction xs arbitrary: b)
  case Nil
  then show ?case by simp
next
  case (Cons x xs)
  then show ?case by (cases b) (simp_all add: add.assoc add.left_commute)
qed

lemma new_insn_run:
  assumes "emitting_into s b"
  shows "new_insn i s =
           Inr ((), s\<lparr>this_prog := update_block b (\<lambda>blk. blk\<lparr>insns := insns blk @ [i]\<rparr>)
                                      (this_prog s)\<rparr>)"
  using assms by (simp add: new_insn_def this_block_def emitting_into_def run_defs)

lemma mk_jcond_run:
  assumes "emitting_into s b"
  shows "mk_jcond c s0 s1 t f s =
           Inr ((), s\<lparr>this_prog := update_block b
                   (\<lambda>blk. blk\<lparr>insns := insns blk @ [Insn_jcond c s0 s1],
                               taken := Some t, fallthru := Some f\<rparr>) (this_prog s)\<rparr>)"
  using assms by (simp add: mk_jcond_def this_block_def emitting_into_def run_defs)

lemma insn_count_update_block:
  assumes "b < length (blocks (this_prog s))"
    and "length (insns (g (blocks (this_prog s) ! b))) = length (insns (blocks (this_prog s) ! b)) + n"
  shows "insn_count (s\<lparr>this_prog := update_block b g (this_prog s)\<rparr>) = insn_count s + n"
  using sum_list_map_update [OF assms(1), of "\<lambda>b. length (insns b)" "g (blocks (this_prog s) ! b)"]
    assms(2)
  by (simp add: insn_count_def update_block_def)

subsection \<open>The bit test of \<open>emit_cond\<close>\<close>

text \<open>
  Claim C7.  For a condition \<open>l & r\<close>, \<open>emit_cond\<close> evaluates the two operands
  and then emits one instruction into the block of the insertion point: a
  conditional jump of the kind \<open>TEST\<close> on the two operand values, with the two
  destinations as the edges of the block; no instruction computes the
  bitwise AND.  The lowering of the translator that computes the AND and
  compares it with zero, \<open>emit_cond\<close> on \<open>(l & r) != 0\<close>, emits three
  instructions besides those of the operands: the copy of the left operand
  into a fresh register, between the operands, then the AND into a second
  fresh register and the conditional jump of the kind \<open>NE\<close>.  So the bit test
  saves two instructions, not one.  An instruction is one call of a helper
  \<^verbatim>\<open>mk_mov\<close>, \<^verbatim>\<open>mk_binary\<close> or \<^verbatim>\<open>mk_jcond\<close>.
\<close>

theorem emit_cond_bit_test:
  "(emit_expr l s = Inr (s0, u1) \<and> emit_expr r u1 = Inr (s1, u2) \<and> emitting_into u2 b \<longrightarrow>
      (\<exists>u. emit_cond (Binary_expression tk ''&'' l r) t f s = Inr ((), u)
         \<and> blocks (this_prog u) =
             (blocks (this_prog u2))
               [b := (blocks (this_prog u2) ! b)
                       \<lparr>insns := insns (blocks (this_prog u2) ! b) @ [Insn_jcond TEST s0 s1],
                        taken := Some t, fallthru := Some f\<rparr>]
         \<and> this_ins u = None
         \<and> insn_count u = insn_count u2 + 1))
   \<and> (prog new_reg s = Inr (a0, sa) \<and> emit_expr l sa = Inr (lv, sb)
        \<and> mk_mov a0 lv sb = Inr ((), sc) \<and> emit_expr r sc = Inr (rv, sd)
        \<and> emitting_into sb b0 \<and> emitting_into sd b1 \<longrightarrow>
      (\<exists>d z v. emit_cond (Comparison tk' ''!='' (Binary_expression tk ''&'' l r)
                          (Literal_number tk'' 0)) t f s = Inr ((), v)
         \<and> insns (blocks (this_prog sc) ! b0) =
             insns (blocks (this_prog sb) ! b0) @ [Insn_mov a0 lv]
         \<and> insns (blocks (this_prog v) ! b1) =
             insns (blocks (this_prog sd) ! b1)
               @ [Insn_binary BPF_AND d a0 rv, Insn_jcond NE d z]
         \<and> insn_count sc = insn_count sb + 1
         \<and> insn_count v = insn_count sd + 2))"
proof (intro conjI impI)
  assume a: "emit_expr l s = Inr (s0, u1) \<and> emit_expr r u1 = Inr (s1, u2) \<and> emitting_into u2 b"
  let ?g = "\<lambda>blk. blk\<lparr>insns := insns blk @ [Insn_jcond TEST s0 s1],
                        taken := Some t, fallthru := Some f\<rparr>"
  let ?u = "u2\<lparr>this_prog := update_block b ?g (this_prog u2), this_ins := None\<rparr>"
  have run: "emit_cond (Binary_expression tk ''&'' l r) t f s = Inr ((), ?u)"
    using a by (simp add: bindM_def thenM_def mk_jcond_run [of u2 b] clear_block_def modifyM_def)
  have cnt: "insn_count ?u = insn_count u2 + 1"
    using a insn_count_update_block [of b u2 ?g 1]
    by (simp add: emitting_into_def insn_count_def)
  show "\<exists>u. emit_cond (Binary_expression tk ''&'' l r) t f s = Inr ((), u)
         \<and> blocks (this_prog u) =
             (blocks (this_prog u2))
               [b := (blocks (this_prog u2) ! b)
                       \<lparr>insns := insns (blocks (this_prog u2) ! b) @ [Insn_jcond TEST s0 s1],
                        taken := Some t, fallthru := Some f\<rparr>]
         \<and> this_ins u = None
         \<and> insn_count u = insn_count u2 + 1"
    using run cnt by (intro exI [of _ ?u]) (simp add: update_block_def)
next
  assume a: "prog new_reg s = Inr (a0, sa) \<and> emit_expr l sa = Inr (lv, sb)
        \<and> mk_mov a0 lv sb = Inr ((), sc) \<and> emit_expr r sc = Inr (rv, sd)
        \<and> emitting_into sb b0 \<and> emitting_into sd b1"
  show "\<exists>d z v. emit_cond (Comparison tk' ''!='' (Binary_expression tk ''&'' l r)
                          (Literal_number tk'' 0)) t f s = Inr ((), v)
         \<and> insns (blocks (this_prog sc) ! b0) =
             insns (blocks (this_prog sb) ! b0) @ [Insn_mov a0 lv]
         \<and> insns (blocks (this_prog v) ! b1) =
             insns (blocks (this_prog sd) ! b1)
               @ [Insn_binary BPF_AND d a0 rv, Insn_jcond NE d z]
         \<and> insn_count sc = insn_count sb + 1
         \<and> insn_count v = insn_count sd + 2"
  proof -
    define d where "d = fst (new_reg (this_prog sd))"
    define se where "se = sd\<lparr>this_prog := snd (new_reg (this_prog sd))\<rparr>"
    let ?and = "\<lambda>blk. blk\<lparr>insns := insns blk @ [Insn_binary BPF_AND d a0 rv]\<rparr>"
    define sf where "sf = se\<lparr>this_prog := update_block b1 ?and (this_prog se)\<rparr>"
    define z where "z = fst (new_imm 0 (this_prog sf))"
    define sg where "sg = sf\<lparr>this_prog := snd (new_imm 0 (this_prog sf))\<rparr>"
    let ?jne = "\<lambda>blk. blk\<lparr>insns := insns blk @ [Insn_jcond NE d z],
                            taken := Some t, fallthru := Some f\<rparr>"
    define v where "v = sg\<lparr>this_prog := update_block b1 ?jne (this_prog sg), this_ins := None\<rparr>"
    have b1: "b1 < length (blocks (this_prog sd))" and i1: "this_ins sd = Some b1"
      using a by (simp_all add: emitting_into_def)
    have e_se: "emitting_into se b1"
      using b1 i1 by (simp add: emitting_into_def se_def)
    have e_sg: "emitting_into sg b1"
      using b1 i1 by (simp add: emitting_into_def sg_def sf_def se_def update_block_def)
    have bin: "emit_expr (Binary_expression tk ''&'' l r) s = Inr (d, sf)"
      using a
      by (simp add: binary_opcode_def bindM_def thenM_def returnM_def mk_binary_def
            prog_run [of new_reg sd] new_insn_run [OF e_se] d_def [symmetric]
            se_def [symmetric] sf_def [symmetric])
    have lit: "emit_expr (Literal_number tk'' 0) sf = Inr (z, sg)"
      by (simp add: visit_literal_number_def prog_run z_def sg_def)
    have run: "emit_cond (Comparison tk' ''!='' (Binary_expression tk ''&'' l r)
                 (Literal_number tk'' 0)) t f s = Inr ((), v)"
      using bin lit
      by (simp add: comparison_cond_def bindM_def thenM_def mk_jcond_run [OF e_sg]
            clear_block_def modifyM_def v_def del: emit_expr.simps)
    have mov: "sc = sb\<lparr>this_prog :=
                 update_block b0 (\<lambda>blk. blk\<lparr>insns := insns blk @ [Insn_mov a0 lv]\<rparr>)
                   (this_prog sb)\<rparr>"
    proof -
      have e0: "emitting_into sb b0" and m: "mk_mov a0 lv sb = Inr ((), sc)"
        using a by simp_all
      show ?thesis
        using new_insn_run [OF e0, of "Insn_mov a0 lv"] m by (simp add: mk_mov_def)
    qed
    have b0: "b0 < length (blocks (this_prog sb))"
      using a by (simp add: emitting_into_def)
    have c1: "insn_count sc = insn_count sb + 1"
      unfolding mov using b0 by (intro insn_count_update_block) simp_all
    have blocks_v: "blocks (this_prog v) ! b1 =
        (blocks (this_prog sd) ! b1)
          \<lparr>insns := insns (blocks (this_prog sd) ! b1)
                      @ [Insn_binary BPF_AND d a0 rv, Insn_jcond NE d z],
           taken := Some t, fallthru := Some f\<rparr>"
      using b1 by (simp add: v_def sg_def sf_def se_def update_block_def)
    have "insn_count sf = insn_count se + 1"
      unfolding sf_def using e_se
      by (intro insn_count_update_block) (simp_all add: emitting_into_def)
    moreover have "insn_count se = insn_count sd"
      by (simp add: se_def insn_count_def)
    moreover have "insn_count sg = insn_count sf"
      by (simp add: sg_def insn_count_def)
    moreover have "insn_count v = insn_count sg + 1"
    proof -
      have "insn_count (sg\<lparr>this_prog := update_block b1 ?jne (this_prog sg)\<rparr>)
              = insn_count sg + 1"
        using e_sg by (intro insn_count_update_block) (simp_all add: emitting_into_def)
      then show ?thesis by (simp add: v_def insn_count_def)
    qed
    ultimately have c2: "insn_count v = insn_count sd + 2" by simp
    show ?thesis
      using run mov b0 c1 c2 blocks_v
      by (intro exI [of _ d] exI [of _ z] exI [of _ v]) (simp add: update_block_def)
  qed
qed

text \<open>
  The two lowerings of the condition \<open>1 & 2\<close> in a kernel probe: the premises
  of the theorem hold there, and the lowerings emit one and three
  instructions.
\<close>

theorem emit_cond_bit_test_witness:
  "\<exists>u v. emit_cond (Binary_expression 0 ''&'' (Literal_number 0 1) (Literal_number 0 2)) 1 2
            (entry_state target_kernel_bpf) = Inr ((), u)
     \<and> insn_count u = 1 \<and> this_ins u = None
     \<and> emit_cond (Comparison 0 ''!='' (Binary_expression 0 ''&'' (Literal_number 0 1)
                    (Literal_number 0 2)) (Literal_number 0 0)) 1 2
            (entry_state target_kernel_bpf) = Inr ((), v)
     \<and> insn_count v = 3"
  using emit_cond_bit_test
    [where l = "Literal_number 0 1" and r = "Literal_number 0 2"
       and s = "entry_state target_kernel_bpf" and tk = 0 and tk' = 0 and tk'' = 0
       and t = 1 and f = 2 and b = 0 and ?b0.0 = 0 and ?b1.0 = 0
       and ?s0.0 = 11 and ?s1.0 = 12 and ?a0.0 = 11 and lv = 12 and rv = 13
       and ?u1.0 = "snd (projr (emit_expr (Literal_number 0 1) (entry_state target_kernel_bpf)))"
       and ?u2.0 = "snd (projr (emit_expr (Literal_number 0 2)
                      (snd (projr (emit_expr (Literal_number 0 1)
                         (entry_state target_kernel_bpf))))))"
       and sa = "snd (projr (prog new_reg (entry_state target_kernel_bpf)))"
       and sb = "snd (projr (emit_expr (Literal_number 0 1)
                   (snd (projr (prog new_reg (entry_state target_kernel_bpf))))))"
       and sc = "snd (projr (mk_mov 11 12 (snd (projr (emit_expr (Literal_number 0 1)
                   (snd (projr (prog new_reg (entry_state target_kernel_bpf)))))))))"
       and sd = "snd (projr (emit_expr (Literal_number 0 2)
                   (snd (projr (mk_mov 11 12 (snd (projr (emit_expr (Literal_number 0 1)
                   (snd (projr (prog new_reg (entry_state target_kernel_bpf))))))))))))"]
  by (simp add: run_defs eval_defs)

text \<open>
  The condition \<open>6 & 3\<close> at the start of a probe: the bit test is one
  instruction, the AND followed by the comparison with zero is three, so the
  difference is not one instruction.
\<close>

theorem emit_cond_bit_test_counterexample:
  "\<exists>u v. emit_cond (Binary_expression 0 ''&'' (Literal_number 0 6) (Literal_number 0 3)) 1 2
            (entry_state target_user_bpfinterp) = Inr ((), u)
     \<and> emit_cond (Comparison 0 ''!='' (Binary_expression 0 ''&'' (Literal_number 0 6)
                    (Literal_number 0 3)) (Literal_number 0 0)) 1 2
            (entry_state target_user_bpfinterp) = Inr ((), v)
     \<and> insn_count u = 1 \<and> insn_count v = 3 \<and> insn_count u + 1 \<noteq> insn_count v"
  by (simp add: run_defs eval_defs)

subsection \<open>Loops in a kernel probe\<close>



subsection \<open>Function calls\<close>



end
